theory Spec2Isabelle
  imports Complex_Main "HOL-Library.Multiset"
begin

section \<open>Question generator (src/lib/gemini.ts)\<close>

text \<open>
  The generator is a pure function of its arguments and of the values drawn from
  \<^verbatim>\<open>Math.random()\<close>. The random source is the function \<open>rnd\<close>: \<open>rnd k\<close> is the
  value returned by the \<open>k\<close>-th call (counted from 0) and lies in \<open>[0, 1)\<close>.
  JavaScript strings are modelled as \<open>string\<close>, \<^verbatim>\<open>string | null\<close> as
  \<open>string option\<close>, a thrown exception as the left summand of a sum type.
\<close>

datatype js_error = TypeError | Error string

record question =
  question_text :: string
  question_type :: string

text \<open>JavaScript truthiness of a \<^verbatim>\<open>string | null\<close>: \<^verbatim>\<open>null\<close> and \<^verbatim>\<open>""\<close> are falsy.\<close>

definition truthy :: "string option \<Rightarrow> bool" where
  "truthy s = (case s of None \<Rightarrow> False | Some t \<Rightarrow> t \<noteq> [])"

text \<open>\<^verbatim>\<open>s || d\<close> on a \<^verbatim>\<open>string | null\<close>.\<close>

definition or_else :: "string option \<Rightarrow> string \<Rightarrow> string" where
  "or_else s d = (case s of None \<Rightarrow> d | Some t \<Rightarrow> if t = [] then d else t)"

definition baseQuestions :: "string \<Rightarrow> string option \<Rightarrow> question list" where
  "baseQuestions jobRole industry =
    [\<lparr>question_text = ''Tell me about your experience as a '' @ jobRole @ ''.'',
      question_type = ''behavioral''\<rparr>,
     \<lparr>question_text = ''What are the key skills required for a '' @ jobRole @ '' position?'',
      question_type = ''general''\<rparr>,
     \<lparr>question_text = ''Describe a challenging situation you faced in your previous role.'',
      question_type = ''behavioral''\<rparr>,
     \<lparr>question_text = ''How do you stay updated with the latest trends in ''
        @ or_else industry ''your field'' @ ''?'',
      question_type = ''general''\<rparr>,
     \<lparr>question_text = ''Where do you see yourself in 5 years?'',
      question_type = ''general''\<rparr>]"

text \<open>The own properties of the object literal \<^verbatim>\<open>roleSpecificQuestions\<close>, in source order.\<close>

definition roleSpecificQuestions :: "(string \<times> question list) list" where
  "roleSpecificQuestions =
    [(''Software Engineer'',
      [\<lparr>question_text = ''Explain the difference between a stack and a queue. When would you use each?'',
        question_type = ''technical''\<rparr>,
       \<lparr>question_text = ''How would you optimize a slow-loading web application?'',
        question_type = ''technical''\<rparr>,
       \<lparr>question_text = ''Describe a time when you had to refactor a large codebase. What approach did you take?'',
        question_type = ''behavioral''\<rparr>,
       \<lparr>question_text = ''How do you ensure your code is maintainable and readable for other developers?'',
        question_type = ''situational''\<rparr>]),
     (''Product Manager'',
      [\<lparr>question_text = ''How do you prioritize features in your product roadmap?'',
        question_type = ''situational''\<rparr>,
       \<lparr>question_text = ''Describe a time when you had to make a difficult product decision based on user feedback.'',
        question_type = ''behavioral''\<rparr>,
       \<lparr>question_text = ''How do you measure the success of a product feature after launch?'',
        question_type = ''technical''\<rparr>,
       \<lparr>question_text = ''How do you balance stakeholder requests with user needs?'',
        question_type = ''situational''\<rparr>]),
     (''Data Scientist'',
      [\<lparr>question_text = ''Explain the difference between supervised and unsupervised learning.'',
        question_type = ''technical''\<rparr>,
       \<lparr>question_text = ''How would you handle missing data in a dataset?'',
        question_type = ''technical''\<rparr>,
       \<lparr>question_text = ''Describe a time when your data analysis led to a significant business decision.'',
        question_type = ''behavioral''\<rparr>,
       \<lparr>question_text = ''How do you communicate complex data findings to non-technical stakeholders?'',
        question_type = ''situational''\<rparr>]),
     (''UX Designer'',
      [\<lparr>question_text = ''Walk me through your design process from research to implementation.'',
        question_type = ''technical''\<rparr>,
       \<lparr>question_text = ''How do you incorporate user feedback into your designs?'',
        question_type = ''situational''\<rparr>,
       \<lparr>question_text = ''Describe a time when you had to defend a design decision to stakeholders.'',
        question_type = ''behavioral''\<rparr>,
       \<lparr>question_text = ''How do you balance aesthetic design with usability?'',
        question_type = ''situational''\<rparr>]),
     (''Marketing Manager'',
      [\<lparr>question_text = ''How do you measure the success of a marketing campaign?'',
        question_type = ''technical''\<rparr>,
       \<lparr>question_text = ''Describe a marketing campaign you led that didn't meet expectations. What did you learn?'',
        question_type = ''behavioral''\<rparr>,
       \<lparr>question_text = ''How would you allocate a limited marketing budget across different channels?'',
        question_type = ''situational''\<rparr>,
       \<lparr>question_text = ''How do you stay ahead of changing marketing trends and technologies?'',
        question_type = ''general''\<rparr>]),
     (''Sales Representative'',
      [\<lparr>question_text = ''How do you handle objections from potential customers?'',
        question_type = ''situational''\<rparr>,
       \<lparr>question_text = ''Describe your sales process from prospecting to closing.'',
        question_type = ''technical''\<rparr>,
       \<lparr>question_text = ''Tell me about a time when you lost a sale. What did you learn?'',
        question_type = ''behavioral''\<rparr>,
       \<lparr>question_text = ''How do you build long-term relationships with clients?'',
        question_type = ''situational''\<rparr>]),
     (''Project Manager'',
      [\<lparr>question_text = ''How do you handle scope creep in a project?'',
        question_type = ''situational''\<rparr>,
       \<lparr>question_text = ''Describe a time when you had to manage a project with limited resources.'',
        question_type = ''behavioral''\<rparr>,
       \<lparr>question_text = ''What project management methodologies are you familiar with, and when do you use each?'',
        question_type = ''technical''\<rparr>,
       \<lparr>question_text = ''How do you communicate project status to stakeholders?'',
        question_type = ''situational''\<rparr>]),
     (''Customer Support Specialist'',
      [\<lparr>question_text = ''How do you handle an angry or frustrated customer?'',
        question_type = ''situational''\<rparr>,
       \<lparr>question_text = ''Describe a time when you went above and beyond for a customer.'',
        question_type = ''behavioral''\<rparr>,
       \<lparr>question_text = ''How do you prioritize multiple customer issues?'',
        question_type = ''situational''\<rparr>,
       \<lparr>question_text = ''What metrics do you use to measure customer satisfaction?'',
        question_type = ''technical''\<rparr>])]"

text \<open>
  \<^verbatim>\<open>roleSpecificQuestions[jobRole]\<close> is a property read on an ordinary object, so a key
  that is not an own property is looked up on \<^verbatim>\<open>Object.prototype\<close>. The names below are
  its members; each of them is a function (or, for \<^verbatim>\<open>__proto__\<close>, the prototype object
  itself): truthy, so \<^verbatim>\<open>|| []\<close> keeps it, and not iterable, so the spread
  \<^verbatim>\<open>[...baseQuestions, ...specificQuestions]\<close> throws a TypeError.
\<close>

definition object_prototype_keys :: "string list" where
  "object_prototype_keys =
    [''constructor'', ''__defineGetter__'', ''__defineSetter__'', ''hasOwnProperty'',
     ''__lookupGetter__'', ''__lookupSetter__'', ''isPrototypeOf'', ''propertyIsEnumerable'',
     ''toString'', ''valueOf'', ''__proto__'', ''toLocaleString'']"

text \<open>\<^verbatim>\<open>const specificQuestions = roleSpecificQuestions[jobRole] || []\<close>, as it is spread.\<close>

definition specificQuestions :: "string \<Rightarrow> js_error + question list" where
  "specificQuestions jobRole =
    (case map_of roleSpecificQuestions jobRole of
       Some qs \<Rightarrow> Inr qs
     | None \<Rightarrow> if jobRole \<in> set object_prototype_keys then Inl TypeError else Inr [])"

subsection \<open>\<^verbatim>\<open>String.prototype.replace\<close> with a case-insensitive alternation\<close>

definition ascii_upper :: "char \<Rightarrow> char" where
  "ascii_upper c =
    (case map_of (zip ''abcdefghijklmnopqrstuvwxyz'' ''ABCDEFGHIJKLMNOPQRSTUVWXYZ'') c of
       Some u \<Rightarrow> u | None \<Rightarrow> c)"

text \<open>The literal \<open>p\<close> matches at the start of \<open>s\<close>, ignoring case.\<close>

definition ci_prefix :: "string \<Rightarrow> string \<Rightarrow> bool" where
  "ci_prefix p s =
    (length p \<le> length s \<and> map ascii_upper (take (length p) s) = map ascii_upper p)"

text \<open>
  \<^verbatim>\<open>s.replace(/p1|p2|.../i, rep)\<close> without the \<^verbatim>\<open>g\<close> flag: the leftmost position where
  an alternative matches is replaced, the alternatives tried in order; the replacement
  strings of the source contain no \<^verbatim>\<open>$\<close> pattern.
\<close>

fun replace_first_ci :: "string list \<Rightarrow> string \<Rightarrow> string \<Rightarrow> string" where
  "replace_first_ci pats rep [] = []"
| "replace_first_ci pats rep (c # cs) =
    (case find (\<lambda>p. ci_prefix p (c # cs)) pats of
       Some p \<Rightarrow> rep @ drop (length p) (c # cs)
     | None \<Rightarrow> c # replace_first_ci pats rep cs)"

subsection \<open>Difficulty adjustment, shuffle, truncation\<close>

definition adjust_advanced :: "question \<Rightarrow> question" where
  "adjust_advanced q =
    (if question_type q = ''technical''
     then q\<lparr>question_text :=
       replace_first_ci [''how'', ''explain'', ''describe''] ''Provide an in-depth explanation of''
         (question_text q)\<rparr>
     else q)"

definition adjust_beginner :: "question \<Rightarrow> question" where
  "adjust_beginner q =
    (if question_type q = ''technical''
     then q\<lparr>question_text :=
       replace_first_ci [''explain'', ''describe''] ''Briefly explain'' (question_text q)\<rparr>
     else q)"

definition adjust_difficulty :: "string option \<Rightarrow> question list \<Rightarrow> question list" where
  "adjust_difficulty difficulty combinedQuestions =
    (if truthy difficulty then
       if difficulty = Some ''advanced'' then map adjust_advanced combinedQuestions
       else if difficulty = Some ''beginner'' then map adjust_beginner combinedQuestions
       else combinedQuestions
     else combinedQuestions)"

text \<open>\<^verbatim>\<open>[a[i], a[j]] = [a[j], a[i]]\<close>\<close>

definition swap :: "'a list \<Rightarrow> nat \<Rightarrow> nat \<Rightarrow> 'a list" where
  "swap a i j = a[i := a ! j, j := a ! i]"

text \<open>
  The loop \<^verbatim>\<open>for (let i = newArray.length - 1; i > 0; i--)\<close>: the third argument is
  \<open>i\<close>, the second the number of draws made so far.
\<close>

fun shuffle_loop :: "(nat \<Rightarrow> real) \<Rightarrow> nat \<Rightarrow> nat \<Rightarrow> 'a list \<Rightarrow> 'a list" where
  "shuffle_loop rnd k 0 newArray = newArray"
| "shuffle_loop rnd k (Suc m) newArray =
    (let j = nat \<lfloor>rnd k * real (Suc m + 1)\<rfloor>
     in shuffle_loop rnd (Suc k) m (swap newArray (Suc m) j))"

definition shuffleArray :: "(nat \<Rightarrow> real) \<Rightarrow> 'a list \<Rightarrow> 'a list" where
  "shuffleArray rnd array = shuffle_loop rnd 0 (length array - 1) array"

text \<open>\<^verbatim>\<open>let combinedQuestions = [...baseQuestions, ...specificQuestions]\<close>\<close>

definition combinedQuestions :: "string \<Rightarrow> string option \<Rightarrow> js_error + question list" where
  "combinedQuestions jobRole industry =
    (case specificQuestions jobRole of
       Inl e \<Rightarrow> Inl e
     | Inr specific \<Rightarrow> Inr (baseQuestions jobRole industry @ specific))"

definition generateDefaultQuestions ::
  "(nat \<Rightarrow> real) \<Rightarrow> string \<Rightarrow> string option \<Rightarrow> string option \<Rightarrow> js_error + question list" where
  "generateDefaultQuestions rnd jobRole industry difficulty =
    (case combinedQuestions jobRole industry of
       Inl e \<Rightarrow> Inl e
     | Inr combined \<Rightarrow>
         Inr (take 7 (shuffleArray rnd (adjust_difficulty difficulty combined))))"

text \<open>
  The value of \<^verbatim>\<open>combinedQuestions\<close> after the block \<^verbatim>\<open>if (difficulty) { ... }\<close>, that is,
  the list that \<^verbatim>\<open>generateDefaultQuestions\<close> shuffles and truncates.
\<close>

definition adjustedQuestions ::
  "string \<Rightarrow> string option \<Rightarrow> string option \<Rightarrow> js_error + question list" where
  "adjustedQuestions jobRole industry difficulty =
    (case combinedQuestions jobRole industry of
       Inl e \<Rightarrow> Inl e
     | Inr combined \<Rightarrow> Inr (adjust_difficulty difficulty combined))"

text \<open>
  \<^verbatim>\<open>generateInterviewQuestions\<close>: the \<^verbatim>\<open>try\<close> block returns the default questions; when
  that call throws, the \<^verbatim>\<open>catch\<close> block makes the same call again (with the draws that
  follow those already consumed; a call that throws has consumed none). The parameter
  \<^verbatim>\<open>count\<close> (here \<open>requested\<close>) is received and not used.
\<close>

definition generateInterviewQuestions ::
  "(nat \<Rightarrow> real) \<Rightarrow> string \<Rightarrow> string option \<Rightarrow> string option \<Rightarrow> nat \<Rightarrow> js_error + question list" where
  "generateInterviewQuestions rnd jobRole industry difficulty requested =
    (case generateDefaultQuestions rnd jobRole industry difficulty of
       Inr qs \<Rightarrow> Inr qs
     | Inl e \<Rightarrow> generateDefaultQuestions rnd jobRole industry difficulty)"

text \<open>The draws of \<^verbatim>\<open>Math.random()\<close> lie in \<open>[0, 1)\<close>.\<close>

definition unit_draws :: "(nat \<Rightarrow> real) \<Rightarrow> bool" where
  "unit_draws rnd = (\<forall>k. 0 \<le> rnd k \<and> rnd k < 1)"

definition count_technical :: "question list \<Rightarrow> nat" where
  "count_technical qs = length (filter (\<lambda>q. question_type q = ''technical'') qs)"


definition returned_length :: "js_error + question list \<Rightarrow> js_error + nat" where
  "returned_length r = map_sum id length r"


section \<open>Results aggregator (src/components/interview/interview-results.tsx)\<close>

text \<open>
  The rows the results page receives: each question with its responses, each response
  with its feedback. Numbers are modelled as exact reals (the rounding of IEEE doubles
  is not part of the model); \<^verbatim>\<open>number | null\<close> is \<open>real option\<close>.
\<close>

datatype response_type = Text | Video | Audio

record feedback =
  feedback_id :: string
  f_response_id :: string
  feedback_text :: string
  improvement_areas :: "string list option"
  strengths :: "string list option"
  confidence_score :: "real option"

record response =
  response_id :: string
  r_question_id :: string
  response_type :: response_type
  response_text :: "string option"
  media_url :: "string option"

record response_with_feedback = response +
  feedback :: "feedback list"

record question_row = question +
  question_id :: string
  q_interview_id :: string
  order_number :: nat

record question_with_responses = question_row +
  responses :: "response_with_feedback list"

text \<open>
  The body of the innermost \<^verbatim>\<open>forEach\<close>: \<^verbatim>\<open>if (feedback.confidence_score)\<close> is a
  truthiness test, false for \<^verbatim>\<open>null\<close> and for the number 0.
\<close>

definition add_score :: "feedback \<Rightarrow> real \<times> nat \<Rightarrow> real \<times> nat" where
  "add_score fb acc =
    (case confidence_score fb of
       None \<Rightarrow> acc
     | Some s \<Rightarrow> if s = 0 then acc else (fst acc + s, snd acc + 1))"

definition all_feedback :: "question_with_responses list \<Rightarrow> feedback list" where
  "all_feedback qs = concat (map feedback (concat (map responses qs)))"

definition getOverallScore :: "question_with_responses list \<Rightarrow> real" where
  "getOverallScore qs =
    (let (totalScore, totalResponses) = fold add_score (all_feedback qs) (0, 0)
     in if totalResponses > 0 then (totalScore / real totalResponses) * 100 else 0)"

text \<open>
  The overall score in the words of the specification: the mean of all present
  \<open>confidence_score\<close> values, scaled to 0..100, or 0 if there is none.
\<close>

definition present_scores :: "question_with_responses list \<Rightarrow> real list" where
  "present_scores qs = concat (map (\<lambda>fb. case confidence_score fb of None \<Rightarrow> [] | Some s \<Rightarrow> [s])
     (all_feedback qs))"

definition spec_overall_score :: "question_with_responses list \<Rightarrow> real" where
  "spec_overall_score qs =
    (if present_scores qs = [] then 0
     else sum_list (present_scores qs) / real (length (present_scores qs)) * 100)"

definition scored_question :: "string \<Rightarrow> real option \<Rightarrow> question_with_responses" where
  "scored_question i s =
    \<lparr>question_text = ''Where do you see yourself in 5 years?'', question_type = ''general'',
     question_id = ''q'' @ i, q_interview_id = ''iv'', order_number = 1,
     responses =
       [\<lparr>response_id = ''r'' @ i, r_question_id = ''q'' @ i, response_type = Text,
         response_text = Some ''In a senior role.'', media_url = None,
         feedback =
           [\<lparr>feedback_id = ''f'' @ i, f_response_id = ''r'' @ i, feedback_text = ''ok'',
             improvement_areas = None, strengths = None, confidence_score = s\<rparr>]\<rparr>]\<rparr>"


section \<open>Storage service and server actions (the \<^verbatim>\<open>"use server"\<close> module)\<close>

text \<open>
  The persistent store holds the four tables. The fields \<^verbatim>\<open>created_at\<close> and
  \<^verbatim>\<open>user_id\<close> are never read or written by the code modelled here and are left out.
  Row identifiers are generated by the store: \<open>next_id\<close> counts the identifiers handed
  out so far.
\<close>

datatype status = in_progress | completed | abandoned

record interview =
  interview_id :: string
  title :: string
  job_role :: string
  iv_industry :: "string option"
  iv_difficulty :: "string option"
  status :: status
  completed_at :: "string option"

record db =
  interviews :: "interview list"
  questions :: "question_row list"
  response_rows :: "response list"
  feedback_rows :: "feedback list"
  objects :: "(string \<times> string) list"
  next_id :: nat

text \<open>
  What the code cannot control is collected in the environment: which calls to the
  storage service fail (one name per call site of the source), the clock, the identifier
  generator of the store, the public URL of an object, and the random source.
\<close>

datatype storage_call =
    InsertInterview | InsertQuestions
  | SelectResponse | UpdateResponse | InsertResponse | UpdateResponseText
  | SelectFeedback | UpdateFeedback | InsertFeedback
  | UpdateInterview | UploadVideo | UploadAudio

record env =
  faults :: "storage_call set"
  now :: string
  uuid :: "nat \<Rightarrow> string"
  publicUrl :: "string \<Rightarrow> string"
  random :: "nat \<Rightarrow> real"

text \<open>
  The storage client resolves every query to a pair \<^verbatim>\<open>{ data, error }\<close> and does not
  throw. A failed call writes nothing and has a non-null \<^verbatim>\<open>error\<close>. \<^verbatim>\<open>.single()\<close>
  yields the row when exactly one row matches, and \<^verbatim>\<open>data: null\<close> otherwise.
\<close>

definition storage_error :: string where
  "storage_error = ''storage request failed''"

definition single :: "'a list \<Rightarrow> 'a option" where
  "single rows = (case rows of [r] \<Rightarrow> Some r | _ \<Rightarrow> None)"

definition responses_for :: "db \<Rightarrow> string \<Rightarrow> response list" where
  "responses_for d questionId = filter (\<lambda>r. r_question_id r = questionId) (response_rows d)"

definition feedback_for :: "db \<Rightarrow> string \<Rightarrow> feedback list" where
  "feedback_for d responseId = filter (\<lambda>f. f_response_id f = responseId) (feedback_rows d)"

text \<open>\<^verbatim>\<open>from("responses").select("id").eq("question_id", questionId).single()\<close>\<close>

definition select_response :: "env \<Rightarrow> db \<Rightarrow> string \<Rightarrow> string option" where
  "select_response e d questionId =
    (if SelectResponse \<in> faults e then None
     else map_option response_id (single (responses_for d questionId)))"

text \<open>\<^verbatim>\<open>from("feedback").select("id").eq("response_id", responseId).single()\<close>\<close>

definition select_feedback :: "env \<Rightarrow> db \<Rightarrow> string \<Rightarrow> string option" where
  "select_feedback e d responseId =
    (if SelectFeedback \<in> faults e then None
     else map_option feedback_id (single (feedback_for d responseId)))"

text \<open>
  \<^verbatim>\<open>from(t).update(values).eq("id", id)\<close>: the second component is \<^verbatim>\<open>error\<close>.
\<close>

definition update_responses ::
  "env \<Rightarrow> storage_call \<Rightarrow> db \<Rightarrow> string \<Rightarrow> (response \<Rightarrow> response) \<Rightarrow> db \<times> string option" where
  "update_responses e c d rid upd =
    (if c \<in> faults e then (d, Some storage_error)
     else (d\<lparr>response_rows := map (\<lambda>r. if response_id r = rid then upd r else r) (response_rows d)\<rparr>,
           None))"

definition update_feedback ::
  "env \<Rightarrow> db \<Rightarrow> string \<Rightarrow> (feedback \<Rightarrow> feedback) \<Rightarrow> db \<times> string option" where
  "update_feedback e d fid upd =
    (if UpdateFeedback \<in> faults e then (d, Some storage_error)
     else (d\<lparr>feedback_rows := map (\<lambda>f. if feedback_id f = fid then upd f else f) (feedback_rows d)\<rparr>,
           None))"

definition update_interviews ::
  "env \<Rightarrow> db \<Rightarrow> string \<Rightarrow> (interview \<Rightarrow> interview) \<Rightarrow> db \<times> string option" where
  "update_interviews e d iid upd =
    (if UpdateInterview \<in> faults e then (d, Some storage_error)
     else (d\<lparr>interviews := map (\<lambda>i. if interview_id i = iid then upd i else i) (interviews d)\<rparr>,
           None))"

text \<open>\<^verbatim>\<open>from("responses").insert(values).select().single()\<close>: the new row, or the error.\<close>

definition insert_response ::
  "env \<Rightarrow> db \<Rightarrow> string \<Rightarrow> response_type \<Rightarrow> string option \<Rightarrow> string option
    \<Rightarrow> db \<times> (string + response)" where
  "insert_response e d questionId responseType responseText mediaUrl =
    (if InsertResponse \<in> faults e then (d, Inl storage_error)
     else
       let row = \<lparr>response_id = uuid e (next_id d), r_question_id = questionId,
                  response_type = responseType, response_text = responseText,
                  media_url = mediaUrl\<rparr>
       in (d\<lparr>response_rows := response_rows d @ [row], next_id := Suc (next_id d)\<rparr>, Inr row))"

subsection \<open>Feedback synthesizer (src/lib/gemini.ts)\<close>

record analysis =
  a_feedback_text :: string
  a_strengths :: "string list"
  a_improvement_areas :: "string list"
  a_confidence_score :: real

definition generateDefaultFeedback :: analysis where
  "generateDefaultFeedback =
    \<lparr>a_feedback_text = ''Your response addresses the question, but could be more specific and detailed. Consider providing concrete examples from your experience to support your points. Overall, your answer demonstrates a good understanding of the topic, but adding more depth would make it stronger.'',
     a_strengths = [''Good communication'', ''Relevant points'', ''Clear structure''],
     a_improvement_areas =
       [''Add more specific examples'', ''Elaborate on key points'', ''Connect to the job role''],
     a_confidence_score = 7 / 10\<rparr>"

text \<open>Both bodies return the fixed value from the \<^verbatim>\<open>try\<close> block; no backend is called.\<close>

definition analyzeResponse :: "string \<Rightarrow> string \<Rightarrow> response_type \<Rightarrow> string \<Rightarrow> analysis" where
  "analyzeResponse question response responseType jobRole = generateDefaultFeedback"

definition transcribeMedia :: "string \<Rightarrow> response_type \<Rightarrow> string" where
  "transcribeMedia mediaUrl mediaType =
    ''I believe I'm well-suited for this position because of my experience and skills in this field. I've worked on similar projects in the past and have developed the necessary expertise to handle the challenges of this role effectively.''"

definition insert_feedback :: "env \<Rightarrow> db \<Rightarrow> string \<Rightarrow> analysis \<Rightarrow> db \<times> string option" where
  "insert_feedback e d responseId a =
    (if InsertFeedback \<in> faults e then (d, Some storage_error)
     else
       let row = \<lparr>feedback_id = uuid e (next_id d), f_response_id = responseId,
                  feedback_text = a_feedback_text a,
                  improvement_areas = Some (a_improvement_areas a),
                  strengths = Some (a_strengths a),
                  confidence_score = Some (a_confidence_score a)\<rparr>
       in (d\<lparr>feedback_rows := feedback_rows d @ [row], next_id := Suc (next_id d)\<rparr>, None))"

definition apply_analysis :: "analysis \<Rightarrow> feedback \<Rightarrow> feedback" where
  "apply_analysis a f =
    f\<lparr>feedback_text := a_feedback_text a,
      improvement_areas := Some (a_improvement_areas a),
      strengths := Some (a_strengths a),
      confidence_score := Some (a_confidence_score a)\<rparr>"

subsection \<open>Server actions\<close>

text \<open>
  A server action returns \<^verbatim>\<open>{ success: true, ... }\<close> (here \<open>Inr\<close>) or
  \<^verbatim>\<open>{ success: false, error }\<close> (here \<open>Inl\<close> with the message); its \<^verbatim>\<open>catch\<close> block
  turns every exception of the body into the latter. Each action takes the store and
  returns it as it has become.
\<close>

text \<open>
  The condition under which \<^verbatim>\<open>analyzeAndSaveFeedback\<close> transcribes:
  \<^verbatim>\<open>(responseType === "video" || responseType === "audio") && mediaUrl && !responseText\<close>.
\<close>

definition needs_transcription :: "response_type \<Rightarrow> string option \<Rightarrow> string option \<Rightarrow> bool" where
  "needs_transcription responseType mediaUrl responseText =
    ((responseType = Video \<or> responseType = Audio) \<and> truthy mediaUrl \<and> \<not> truthy responseText)"

text \<open>
  The last part of \<^verbatim>\<open>analyzeAndSaveFeedback\<close>: the feedback of the response is
  updated when there is one, inserted otherwise; the second component is the
  \<^verbatim>\<open>error\<close> that is thrown.
\<close>

definition upsert_feedback :: "env \<Rightarrow> db \<Rightarrow> string \<Rightarrow> analysis \<Rightarrow> db \<times> string option" where
  "upsert_feedback e d responseId a =
    (case select_feedback e d responseId of
       Some existingFeedback \<Rightarrow> update_feedback e d existingFeedback (apply_analysis a)
     | None \<Rightarrow> insert_feedback e d responseId a)"

definition analyzeAndSaveFeedback ::
  "env \<Rightarrow> db \<Rightarrow> string \<Rightarrow> string \<Rightarrow> string option \<Rightarrow> response_type \<Rightarrow> string \<Rightarrow> string option
    \<Rightarrow> db \<times> (string + analysis)" where
  "analyzeAndSaveFeedback e d responseId questionText responseText responseType jobRole mediaUrl =
    (let transcribe = needs_transcription responseType mediaUrl responseText;
         textToAnalyze =
           (if transcribe then Some (transcribeMedia (or_else mediaUrl []) responseType)
            else responseText);
         d1 = (if transcribe
               then fst (update_responses e UpdateResponseText d responseId
                          (\<lambda>r. r\<lparr>response_text := textToAnalyze\<rparr>))
               else d)
     in if \<not> truthy textToAnalyze then (d1, Inl ''No text to analyze'')
        else
          let a = analyzeResponse questionText (or_else textToAnalyze []) responseType jobRole
          in case upsert_feedback e d1 responseId a of
               (d2, Some err) \<Rightarrow> (d2, Inl err)
             | (d2, None) \<Rightarrow> (d2, Inr a))"

text \<open>
  The first part of \<^verbatim>\<open>saveResponseWithFeedback\<close>: the response of the question is
  updated when there is one, inserted otherwise. The \<^verbatim>\<open>error\<close> of the update is not
  read; that of the insert is thrown (\<open>Inl\<close>). Otherwise the result is the response id.
\<close>

definition upsert_response ::
  "env \<Rightarrow> db \<Rightarrow> string \<Rightarrow> response_type \<Rightarrow> string option \<Rightarrow> string option
    \<Rightarrow> db \<times> (string + string)" where
  "upsert_response e d questionId responseType responseText mediaUrl =
    (case select_response e d questionId of
       Some existingResponse \<Rightarrow>
         (fst (update_responses e UpdateResponse d existingResponse
                 (\<lambda>r. r\<lparr>response_type := responseType, response_text := responseText,
                        media_url := mediaUrl\<rparr>)),
          Inr existingResponse)
     | None \<Rightarrow>
         (case insert_response e d questionId responseType responseText mediaUrl of
            (d1, Inl err) \<Rightarrow> (d1, Inl err)
          | (d1, Inr newResponse) \<Rightarrow> (d1, Inr (response_id newResponse))))"

text \<open>
  \<^verbatim>\<open>saveResponseWithFeedback\<close>: on success the result is the response id and the
  analysis.
\<close>

definition saveResponseWithFeedback ::
  "env \<Rightarrow> db \<Rightarrow> string \<Rightarrow> response_type \<Rightarrow> string option \<Rightarrow> string option \<Rightarrow> string \<Rightarrow> string
    \<Rightarrow> db \<times> (string + string \<times> analysis)" where
  "saveResponseWithFeedback e d questionId responseType responseText mediaUrl questionText jobRole =
    (case upsert_response e d questionId responseType responseText mediaUrl of
       (d1, Inl err) \<Rightarrow> (d1, Inl err)
     | (d1, Inr responseId) \<Rightarrow>
         (case analyzeAndSaveFeedback e d1 responseId questionText responseText responseType
                 jobRole mediaUrl of
            (d2, Inl err) \<Rightarrow> (d2, Inl (if err = [] then ''Failed to analyze response'' else err))
          | (d2, Inr a) \<Rightarrow> (d2, Inr (responseId, a))))"

text \<open>\<^verbatim>\<open>completeInterview\<close>: the \<^verbatim>\<open>error\<close> of the update is not read.\<close>

definition completeInterview :: "env \<Rightarrow> db \<Rightarrow> string \<Rightarrow> db \<times> (string + unit)" where
  "completeInterview e d interviewId =
    (fst (update_interviews e d interviewId
            (\<lambda>i. i\<lparr>status := completed, completed_at := Some (now e)\<rparr>)),
     Inr ())"

definition error_message :: "js_error \<Rightarrow> string" where
  "error_message err =
    (case err of TypeError \<Rightarrow> ''specificQuestions is not iterable'' | Error m \<Rightarrow> m)"

text \<open>The rows built by \<^verbatim>\<open>questions.map((question, index) => ...)\<close>, with their new ids.\<close>

fun questionsToInsert ::
  "env \<Rightarrow> string \<Rightarrow> nat \<Rightarrow> nat \<Rightarrow> question list \<Rightarrow> question_row list" where
  "questionsToInsert e interviewId n index [] = []"
| "questionsToInsert e interviewId n index (q # qs) =
    \<lparr>question_text = question_text q, question_type = question_type q,
     question_id = uuid e n, q_interview_id = interviewId, order_number = index + 1\<rparr>
    # questionsToInsert e interviewId (Suc n) (Suc index) qs"

definition generateAndSaveQuestions ::
  "env \<Rightarrow> db \<Rightarrow> string \<Rightarrow> string \<Rightarrow> string option \<Rightarrow> string option \<Rightarrow> nat
    \<Rightarrow> db \<times> (string + question list)" where
  "generateAndSaveQuestions e d interviewId jobRole industry difficulty requested =
    (case generateInterviewQuestions (random e) jobRole industry difficulty requested of
       Inl err \<Rightarrow> (d, Inl (error_message err))
     | Inr qs \<Rightarrow>
         if InsertQuestions \<in> faults e then (d, Inl storage_error)
         else (d\<lparr>questions := questions d @ questionsToInsert e interviewId (next_id d) 0 qs,
                 next_id := next_id d + length qs\<rparr>,
               Inr qs))"

record form_data =
  fd_title :: string
  fd_jobRole :: string
  fd_industry :: string
  fd_difficulty :: string

text \<open>\<^verbatim>\<open>s || null\<close> on a string.\<close>

definition or_null :: "string \<Rightarrow> string option" where
  "or_null s = (if s = [] then None else Some s)"

text \<open>
  \<^verbatim>\<open>createInterviewWithQuestions\<close>: the interview row is inserted first; when the
  questions cannot be generated or saved, the action returns the failure. It has no
  statement that deletes the row.
\<close>

definition new_interview :: "env \<Rightarrow> db \<Rightarrow> form_data \<Rightarrow> interview" where
  "new_interview e d formData =
    \<lparr>interview_id = uuid e (next_id d), title = fd_title formData,
     job_role = fd_jobRole formData, iv_industry = or_null (fd_industry formData),
     iv_difficulty = or_null (fd_difficulty formData), status = in_progress,
     completed_at = None\<rparr>"

definition createInterviewWithQuestions :: "env \<Rightarrow> db \<Rightarrow> form_data \<Rightarrow> db \<times> (string + string)" where
  "createInterviewWithQuestions e d formData =
    (if InsertInterview \<in> faults e then (d, Inl storage_error)
     else
       let row = new_interview e d formData;
           d1 = d\<lparr>interviews := interviews d @ [row], next_id := Suc (next_id d)\<rparr>
       in case generateAndSaveQuestions e d1 (interview_id row) (fd_jobRole formData)
                 (or_null (fd_industry formData)) (or_null (fd_difficulty formData)) 5 of
            (d2, Inl err) \<Rightarrow>
              (d2, Inl (if err = [] then ''Failed to generate questions'' else err))
          | (d2, Inr qs) \<Rightarrow> (d2, Inr (interview_id row)))"


section \<open>Session orchestrator (src/components/interview/interview-session.tsx)\<close>

text \<open>
  The component state is the record \<open>session\<close>: the \<^verbatim>\<open>useState\<close> cells, the toasts
  shown so far (oldest first) and the route pushed to the router. A recorded blob is
  modelled by its bytes; a \<^verbatim>\<open>Blob\<close> object is truthy whatever it holds.
\<close>

record props =
  p_interview :: interview
  p_questions :: "question_row list"

datatype toast = ResponseSaved | AnalyzeFailed | SaveFailed | InterviewCompleted

record session =
  currentQuestionIndex :: nat
  responseType :: response_type
  textResponse :: string
  videoBlob :: "string option"
  audioBlob :: "string option"
  isSubmitting :: bool
  isCompleted :: bool
  feedbackLoading :: bool
  toasts :: "toast list"
  pushed_route :: "string option"

text \<open>The initial values of the \<^verbatim>\<open>useState\<close> cells when the component is mounted.\<close>

definition InterviewSession :: "props \<Rightarrow> session" where
  "InterviewSession p =
    \<lparr>currentQuestionIndex = 0, responseType = Text, textResponse = [],
     videoBlob = None, audioBlob = None, isSubmitting = False,
     isCompleted = (status (p_interview p) = completed), feedbackLoading = False,
     toasts = [], pushed_route = None\<rparr>"

text \<open>\<^verbatim>\<open>questions[currentQuestionIndex]\<close>, \<^verbatim>\<open>undefined\<close> out of range.\<close>

definition currentQuestion :: "props \<Rightarrow> session \<Rightarrow> question_row option" where
  "currentQuestion p s =
    (if currentQuestionIndex s < length (p_questions p)
     then Some (p_questions p ! currentQuestionIndex s) else None)"

definition resetResponseState :: "session \<Rightarrow> session" where
  "resetResponseState s = s\<lparr>textResponse := [], videoBlob := None, audioBlob := None\<rparr>"

text \<open>\<^verbatim>\<open>storage.from("responses").upload(fileName, blob, { upsert: true })\<close>\<close>

definition upload ::
  "env \<Rightarrow> storage_call \<Rightarrow> db \<Rightarrow> string \<Rightarrow> string \<Rightarrow> db \<times> string option" where
  "upload e c d fileName blob =
    (if c \<in> faults e then (d, Some storage_error)
     else (d\<lparr>objects := (fileName, blob) # filter (\<lambda>kv. fst kv \<noteq> fileName) (objects d)\<rparr>, None))"

text \<open>
  The first part of \<^verbatim>\<open>saveResponse\<close>, before its \<^verbatim>\<open>try\<close> block: the text and the media
  URL that are sent, or the upload error that is thrown.
\<close>

definition process_response ::
  "env \<Rightarrow> props \<Rightarrow> session \<Rightarrow> db \<Rightarrow> question_row
    \<Rightarrow> js_error + (db \<times> string option \<times> string option)" where
  "process_response e p s d q =
    (if responseType s = Text then Inr (d, Some (textResponse s), None)
     else if responseType s = Video \<and> videoBlob s \<noteq> None then
       (let fileName = ''interviews/'' @ interview_id (p_interview p) @ ''/question_''
              @ question_id q @ ''_video.webm''
        in case upload e UploadVideo d fileName (case videoBlob s of Some b \<Rightarrow> b | None \<Rightarrow> []) of
             (d1, Some err) \<Rightarrow> Inl (Error err)
           | (d1, None) \<Rightarrow> Inr (d1, None, Some (publicUrl e fileName)))
     else if responseType s = Audio \<and> audioBlob s \<noteq> None then
       (let fileName = ''interviews/'' @ interview_id (p_interview p) @ ''/question_''
              @ question_id q @ ''_audio.webm''
        in case upload e UploadAudio d fileName (case audioBlob s of Some b \<Rightarrow> b | None \<Rightarrow> []) of
             (d1, Some err) \<Rightarrow> Inl (Error err)
           | (d1, None) \<Rightarrow> Inr (d1, None, Some (publicUrl e fileName)))
     else Inr (d, None, None))"

text \<open>
  \<^verbatim>\<open>saveResponse\<close>: an upload error is thrown to the caller (\<open>Inl\<close>); a failure
  returned by \<^verbatim>\<open>saveResponseWithFeedback\<close> is thrown inside the \<^verbatim>\<open>try\<close> block and caught
  by its own \<^verbatim>\<open>catch\<close>, which shows a toast and lets the function return normally.
\<close>

definition saveResponse ::
  "env \<Rightarrow> props \<Rightarrow> session \<Rightarrow> db \<Rightarrow> (session \<times> db) \<times> (js_error + unit)" where
  "saveResponse e p s d =
    (case currentQuestion p s of
       None \<Rightarrow> ((s, d), Inr ())
     | Some q \<Rightarrow>
         let s1 = s\<lparr>feedbackLoading := True\<rparr>
         in case process_response e p s d q of
              Inl err \<Rightarrow> ((s1, d), Inl err)
            | Inr (d1, responseText, mediaUrl) \<Rightarrow>
                (case saveResponseWithFeedback e d1 (question_id q) (responseType s) responseText
                        mediaUrl (question_text q) (job_role (p_interview p)) of
                   (d2, Inl err) \<Rightarrow>
                     ((s1\<lparr>toasts := toasts s1 @ [AnalyzeFailed], feedbackLoading := False\<rparr>, d2),
                      Inr ())
                 | (d2, Inr res) \<Rightarrow>
                     ((s1\<lparr>toasts := toasts s1 @ [ResponseSaved], feedbackLoading := False\<rparr>, d2),
                      Inr ())))"

definition completeInterviewSession ::
  "env \<Rightarrow> props \<Rightarrow> session \<Rightarrow> db \<Rightarrow> (session \<times> db) \<times> (js_error + unit)" where
  "completeInterviewSession e p s d =
    (case completeInterview e d (interview_id (p_interview p)) of
       (d1, Inl err) \<Rightarrow>
         ((s, d1), Inl (Error (if err = [] then ''Failed to complete interview'' else err)))
     | (d1, Inr u) \<Rightarrow>
         ((s\<lparr>toasts := toasts s @ [InterviewCompleted],
             pushed_route := Some (''/interviews/'' @ interview_id (p_interview p) @ ''/results'')\<rparr>,
           d1),
          Inr ()))"

definition handleNextQuestion :: "env \<Rightarrow> props \<Rightarrow> session \<Rightarrow> db \<Rightarrow> session \<times> db" where
  "handleNextQuestion e p s d =
    (case currentQuestion p s of
       None \<Rightarrow> (s, d)
     | Some q \<Rightarrow>
         (case saveResponse e p (s\<lparr>isSubmitting := True\<rparr>) d of
            ((s2, d2), Inl err) \<Rightarrow>
              (s2\<lparr>toasts := toasts s2 @ [SaveFailed], isSubmitting := False\<rparr>, d2)
          | ((s2, d2), Inr u) \<Rightarrow>
              if currentQuestionIndex s < length (p_questions p) - 1 then
                ((resetResponseState (s2\<lparr>currentQuestionIndex := currentQuestionIndex s + 1\<rparr>))
                   \<lparr>isSubmitting := False\<rparr>, d2)
              else
                (case completeInterviewSession e p s2 d2 of
                   ((s3, d3), Inl err) \<Rightarrow>
                     (s3\<lparr>toasts := toasts s3 @ [SaveFailed], isSubmitting := False\<rparr>, d3)
                 | ((s3, d3), Inr u) \<Rightarrow>
                     (s3\<lparr>isCompleted := True, isSubmitting := False\<rparr>, d3))))"

text \<open>The condition under which the Next button is enabled.\<close>

definition next_enabled :: "session \<Rightarrow> bool" where
  "next_enabled s =
    (\<not> (isSubmitting s \<or> (responseType s = Text \<and> textResponse s = [])
        \<or> (responseType s = Video \<and> videoBlob s = None)
        \<or> (responseType s = Audio \<and> audioBlob s = None)))"

subsection \<open>Notions of the specification\<close>

text \<open>
  The resume cursor in the words of the specification: the index of the first question
  that has no persisted Response; it is 0 when no Response exists yet. (When every
  question has a Response the value is the number of questions.)
\<close>

definition answered :: "response list \<Rightarrow> question_row \<Rightarrow> bool" where
  "answered rs q = (question_id q \<in> r_question_id ` set rs)"

definition spec_resume_cursor :: "question_row list \<Rightarrow> response list \<Rightarrow> nat" where
  "spec_resume_cursor qs rs = length (takeWhile (answered rs) qs)"

text \<open>Every row of the interview is completed and stamped, and there is such a row.\<close>

definition interview_completed :: "db \<Rightarrow> string \<Rightarrow> bool" where
  "interview_completed d iid =
    (filter (\<lambda>i. interview_id i = iid) (interviews d) \<noteq> [] \<and>
     list_all (\<lambda>i. status i = completed \<and> completed_at i \<noteq> None)
       (filter (\<lambda>i. interview_id i = iid) (interviews d)))"

subsection \<open>Concrete inputs\<close>

definition draws_zero :: "nat \<Rightarrow> real" where
  "draws_zero k = 0"


definition test_env :: "storage_call set \<Rightarrow> env" where
  "test_env F =
    \<lparr>faults = F, now = ''2025-01-01T00:00:00.000Z'',
     uuid = (\<lambda>n. replicate (Suc n) CHR ''u''),
     publicUrl = (\<lambda>k. ''https://storage.example/'' @ k),
     random = draws_zero\<rparr>"

definition empty_db :: db where
  "empty_db = \<lparr>interviews = [], questions = [], response_rows = [], feedback_rows = [],
               objects = [], next_id = 0\<rparr>"

definition ex_form :: form_data where
  "ex_form = \<lparr>fd_title = ''Practice'', fd_jobRole = ''Nurse'', fd_industry = [],
              fd_difficulty = []\<rparr>"

definition ex_interview :: interview where
  "ex_interview =
    \<lparr>interview_id = ''iv'', title = ''Practice'', job_role = ''Nurse'', iv_industry = None,
     iv_difficulty = None, status = in_progress, completed_at = None\<rparr>"

definition ex_questions :: "question_row list" where
  "ex_questions =
    [\<lparr>question_text = ''Tell me about your experience as a Nurse.'',
      question_type = ''behavioral'', question_id = ''q1'', q_interview_id = ''iv'',
      order_number = 1\<rparr>,
     \<lparr>question_text = ''Where do you see yourself in 5 years?'',
      question_type = ''general'', question_id = ''q2'', q_interview_id = ''iv'',
      order_number = 2\<rparr>]"

definition ex_props :: props where
  "ex_props = \<lparr>p_interview = ex_interview, p_questions = ex_questions\<rparr>"

definition ex_response :: "string \<Rightarrow> response" where
  "ex_response t =
    \<lparr>response_id = ''r1'', r_question_id = ''q1'', response_type = Text,
     response_text = Some t, media_url = None\<rparr>"

definition ex_db :: "response list \<Rightarrow> db" where
  "ex_db rs = \<lparr>interviews = [ex_interview], questions = ex_questions, response_rows = rs,
               feedback_rows = [], objects = [], next_id = 0\<rparr>"

text \<open>A session on question \<open>i\<close> with a typed answer.\<close>

definition ex_session :: "nat \<Rightarrow> string \<Rightarrow> session" where
  "ex_session i t = (InterviewSession ex_props)\<lparr>currentQuestionIndex := i, textResponse := t\<rparr>"

definition ex_video_session :: session where
  "ex_video_session = (InterviewSession ex_props)\<lparr>responseType := Video, videoBlob := Some ''webm''\<rparr>"

section \<open>Properties of the question generator\<close>

lemma draw_index_le:
  assumes "0 \<le> r" "r < 1"
  shows "nat \<lfloor>r * real (Suc m + 1)\<rfloor> \<le> Suc m"
proof -
  have "r * real (Suc m + 1) < real (Suc m + 1)"
    using assms by simp
  then have "\<lfloor>r * real (Suc m + 1)\<rfloor> < int (Suc m + 1)"
    by (simp add: floor_less_iff)
  then show ?thesis by linarith
qed

lemma length_swap: "length (swap a i j) = length a"
  by (simp add: swap_def)

lemma mset_swap_in_range:
  "i < length a \<Longrightarrow> j < length a \<Longrightarrow> mset (swap a i j) = mset a"
  unfolding swap_def by (simp add: mset_swap)


lemma length_shuffle_loop: "length (shuffle_loop rnd k i a) = length a"
  by (induction i arbitrary: k a) (simp_all add: Let_def length_swap)

lemma mset_shuffle_loop:
  "unit_draws rnd \<Longrightarrow> i < length a \<Longrightarrow> mset (shuffle_loop rnd k i a) = mset a"
proof (induction i arbitrary: k a)
  case 0
  then show ?case by simp
next
  case (Suc m)
  let ?j = "nat \<lfloor>rnd k * real (Suc m + 1)\<rfloor>"
  have j: "?j \<le> Suc m"
    using Suc.prems(1) by (intro draw_index_le) (simp_all add: unit_draws_def)
  have "mset (swap a (Suc m) ?j) = mset a"
    using j Suc.prems(2) by (intro mset_swap_in_range) simp_all
  moreover have "m < length (swap a (Suc m) ?j)"
    using Suc.prems(2) by (simp add: length_swap)
  ultimately show ?case
    using Suc.IH [OF Suc.prems(1), of "swap a (Suc m) ?j" "Suc k"] by (simp add: Let_def)
qed


lemma length_shuffleArray: "length (shuffleArray rnd a) = length a"
  by (simp add: shuffleArray_def length_shuffle_loop)

lemma mset_shuffleArray: "unit_draws rnd \<Longrightarrow> mset (shuffleArray rnd a) = mset a"
proof (cases a)
  case Nil
  then show ?thesis by (simp add: shuffleArray_def)
next
  case (Cons x xs)
  assume "unit_draws rnd"
  then show ?thesis
    unfolding shuffleArray_def by (intro mset_shuffle_loop) (simp_all add: Cons)
qed


lemma question_type_adjust [simp]:
  "question_type (adjust_advanced q) = question_type q"
  "question_type (adjust_beginner q) = question_type q"
  by (simp_all add: adjust_advanced_def adjust_beginner_def)


lemma length_adjust_difficulty: "length (adjust_difficulty dif qs) = length qs"
  by (simp add: adjust_difficulty_def)


lemma count_technical_mset:
  "mset xs = mset ys \<Longrightarrow> count_technical xs = count_technical ys"
proof -
  assume "mset xs = mset ys"
  then have "mset (filter (\<lambda>q. question_type q = ''technical'') xs)
      = mset (filter (\<lambda>q. question_type q = ''technical'') ys)"
    by simp
  then show ?thesis
    unfolding count_technical_def by (rule mset_eq_length)
qed

lemma count_technical_take: "count_technical (take n qs) \<le> count_technical qs"
proof -
  let ?P = "\<lambda>q. question_type q = ''technical''"
  have "filter ?P (take n qs) @ filter ?P (drop n qs) = filter ?P (take n qs @ drop n qs)"
    by (rule filter_append [symmetric])
  then have "filter ?P (take n qs) @ filter ?P (drop n qs) = filter ?P qs"
    by (simp only: append_take_drop_id)
  then have "length (filter ?P (take n qs)) + length (filter ?P (drop n qs)) = length (filter ?P qs)"
    by (metis length_append)
  then show ?thesis
    unfolding count_technical_def by linarith
qed

lemma replace_first_ci_nonempty:
  "s \<noteq> [] \<Longrightarrow> rep \<noteq> [] \<Longrightarrow> replace_first_ci pats rep s \<noteq> []"
  by (cases s) (simp_all split: option.splits)

lemma text_adjust_nonempty:
  "question_text q \<noteq> [] \<Longrightarrow> question_text (adjust_advanced q) \<noteq> []"
  "question_text q \<noteq> [] \<Longrightarrow> question_text (adjust_beginner q) \<noteq> []"
  by (simp_all add: adjust_advanced_def adjust_beginner_def replace_first_ci_nonempty)

lemma adjust_difficulty_nonempty:
  "\<forall>q \<in> set qs. question_text q \<noteq> [] \<Longrightarrow>
     \<forall>q \<in> set (adjust_difficulty dif qs). question_text q \<noteq> []"
  by (auto simp: adjust_difficulty_def text_adjust_nonempty)

lemma baseQuestions_nonempty: "\<forall>q \<in> set (baseQuestions jobRole ind). question_text q \<noteq> []"
  by (simp add: baseQuestions_def)

lemma length_baseQuestions: "length (baseQuestions jobRole ind) = 5"
  by (simp add: baseQuestions_def)

lemma base_not_technical: "count_technical (baseQuestions jobRole ind) = 0"
  by (simp add: baseQuestions_def count_technical_def)

lemma roleSpecific_entries:
  "\<forall>kv \<in> set roleSpecificQuestions. length (snd kv) = 4 \<and> (\<forall>q \<in> set (snd kv). question_text q \<noteq> [])"
  by (simp add: roleSpecificQuestions_def)

lemma specificQuestions_cases:
  assumes "specificQuestions jobRole = Inr specific"
  shows "(specific = [] \<or> length specific = 4) \<and> (\<forall>q \<in> set specific. question_text q \<noteq> [])"
proof (cases "map_of roleSpecificQuestions jobRole")
  case None
  then show ?thesis
    using assms by (simp add: specificQuestions_def split: if_splits)
next
  case (Some qs)
  then have "(jobRole, qs) \<in> set roleSpecificQuestions" by (rule map_of_SomeD)
  with roleSpecific_entries have "length qs = 4 \<and> (\<forall>q \<in> set qs. question_text q \<noteq> [])"
    by fastforce
  moreover have "specific = qs" using assms Some by (simp add: specificQuestions_def)
  ultimately show ?thesis by simp
qed

lemma specificQuestions_total:
  "jobRole \<notin> set object_prototype_keys \<Longrightarrow> \<exists>specific. specificQuestions jobRole = Inr specific"
  by (simp add: specificQuestions_def split: option.splits)

lemma unit_draws_zero: "unit_draws draws_zero"
  by (simp add: unit_draws_def draws_zero_def)







lemma combined_Nurse: "combinedQuestions ''Nurse'' None = Inr (baseQuestions ''Nurse'' None)"
  by (simp add: combinedQuestions_def specificQuestions_def roleSpecificQuestions_def
      object_prototype_keys_def)


lemma combinedQuestions_total:
  assumes "jobRole \<notin> set object_prototype_keys"
  shows "\<exists>combined. combinedQuestions jobRole ind = Inr combined \<and>
    (length combined = 5 \<or> length combined = 9) \<and>
    (\<forall>q \<in> set combined. question_text q \<noteq> []) \<and>
    (map_of roleSpecificQuestions jobRole = None \<longrightarrow> combined = baseQuestions jobRole ind)"
proof -
  from specificQuestions_total [OF assms]
  obtain specific where sp: "specificQuestions jobRole = Inr specific" by blast
  have "map_of roleSpecificQuestions jobRole = None \<longrightarrow> specific = []"
    using sp by (auto simp: specificQuestions_def split: if_splits)
  then show ?thesis
    using specificQuestions_cases [OF sp] baseQuestions_nonempty [of jobRole ind] sp
    by (auto simp: combinedQuestions_def length_baseQuestions)
qed

lemma generated_from_combined:
  assumes "unit_draws rnd" "combinedQuestions jobRole ind = Inr combined"
  shows "\<exists>qs. generateInterviewQuestions rnd jobRole ind dif requested = Inr qs \<and>
    qs = take 7 (shuffleArray rnd (adjust_difficulty dif combined)) \<and>
    length qs = min 7 (length combined) \<and>
    set qs \<subseteq> set (adjust_difficulty dif combined)"
proof -
  let ?sh = "shuffleArray rnd (adjust_difficulty dif combined)"
  have "set (take 7 ?sh) \<subseteq> set ?sh" by (rule set_take_subset)
  also have "set ?sh = set (adjust_difficulty dif combined)"
    using mset_shuffleArray [OF assms(1), of "adjust_difficulty dif combined"]
    by (rule mset_eq_setD)
  finally show ?thesis
    using assms(2)
    by (simp add: generateInterviewQuestions_def generateDefaultQuestions_def
        length_shuffleArray length_adjust_difficulty min.commute)
qed

lemma unknown_role_permutation:
  assumes "unit_draws rnd" and "jobRole \<notin> set object_prototype_keys"
    and "map_of roleSpecificQuestions jobRole = None"
  shows "\<exists>qs. generateInterviewQuestions rnd jobRole ind dif requested = Inr qs
     \<and> mset qs = mset (baseQuestions jobRole ind)"
proof -
  from combinedQuestions_total [OF assms(2), of ind] assms(3)
  have c: "combinedQuestions jobRole ind = Inr (baseQuestions jobRole ind)" by auto
  have adj: "adjust_difficulty dif (baseQuestions jobRole ind) = baseQuestions jobRole ind"
    by (simp add: adjust_difficulty_def baseQuestions_def adjust_advanced_def adjust_beginner_def)
  from generated_from_combined [OF assms(1) c, of dif requested]
  show ?thesis
    by (auto simp: adj length_baseQuestions length_shuffleArray mset_shuffleArray [OF assms(1)])
qed

lemma generate_via_adjusted:
  "generateDefaultQuestions rnd jobRole ind dif =
    (case adjustedQuestions jobRole ind dif of
       Inl e \<Rightarrow> Inl e
     | Inr adjusted \<Rightarrow> Inr (take 7 (shuffleArray rnd adjusted)))"
  by (simp add: generateDefaultQuestions_def adjustedQuestions_def split: sum.splits)




text \<open>The advanced rewrite does change the text of a technical question.\<close>

lemma advanced_rewrites_text:
  "question_text (adjust_advanced
      \<lparr>question_text = ''Explain the difference between a stack and a queue. When would you use each?'',
       question_type = ''technical''\<rparr>)
   = ''Provide an in-depth explanation of the difference between a stack and a queue. When would you use each?''"
  by (simp add: adjust_advanced_def ci_prefix_def ascii_upper_def)




text \<open>
  Claim C9, as stated, includes "the length of the returned sequence is at most the
  requested count". It fails: the requested count is never read, and a request for one
  question returns five.
\<close>

theorem count_ignored_counterexample:
  "returned_length (generateInterviewQuestions draws_zero ''Nurse'' None None 1) = Inr 5
   \<and> \<not> (5::nat) \<le> 1"
proof -
  note c = combined_Nurse
  from generated_from_combined [OF unit_draws_zero c, of None 1]
  show ?thesis
    by (auto simp: returned_length_def length_baseQuestions)
qed

text \<open>
  Claim C9, amended: for every job role that is not the name of a member inherited from
  \<^verbatim>\<open>Object.prototype\<close>, every industry, difficulty and requested count, the generator
  returns an ordered sequence of between 1 and 7 questions (5 or 7 of them), each with a
  non-empty \<open>question_text\<close>; the result does not depend on the requested count, so
  its length is not bounded by it.
\<close>

theorem generator_five_to_seven:
  assumes "unit_draws rnd" and "jobRole \<notin> set object_prototype_keys"
  shows "\<exists>qs. generateInterviewQuestions rnd jobRole ind dif requested = Inr qs
     \<and> 1 \<le> length qs \<and> length qs \<le> 7 \<and> (length qs = 5 \<or> length qs = 7)
     \<and> (\<forall>q \<in> set qs. question_text q \<noteq> [])
     \<and> generateInterviewQuestions rnd jobRole ind dif requested' = Inr qs"
proof -
  from combinedQuestions_total [OF assms(2), of ind]
  obtain combined where c: "combinedQuestions jobRole ind = Inr combined"
    and len: "length combined = 5 \<or> length combined = 9"
    and ne: "\<forall>q \<in> set combined. question_text q \<noteq> []"
    by blast
  from generated_from_combined [OF assms(1) c, of dif requested]
  obtain qs where g: "generateInterviewQuestions rnd jobRole ind dif requested = Inr qs"
    and l: "length qs = min 7 (length combined)"
    and sub: "set qs \<subseteq> set (adjust_difficulty dif combined)"
    by blast
  have "\<forall>q \<in> set qs. question_text q \<noteq> []"
    using adjust_difficulty_nonempty [OF ne, of dif] sub by blast
  moreover have "generateInterviewQuestions rnd jobRole ind dif requested' = Inr qs"
    using g by (simp add: generateInterviewQuestions_def)
  moreover have "length qs = 5 \<or> length qs = 7"
    using l len by auto
  ultimately show ?thesis
    using g by auto
qed

theorem generator_five_to_seven_witness:
  "unit_draws draws_zero \<and> ''Nurse'' \<notin> set object_prototype_keys \<and>
   (\<exists>qs. generateInterviewQuestions draws_zero ''Nurse'' None None 1 = Inr qs
     \<and> 1 \<le> length qs \<and> length qs \<le> 7 \<and> (length qs = 5 \<or> length qs = 7)
     \<and> (\<forall>q \<in> set qs. question_text q \<noteq> [])
     \<and> generateInterviewQuestions draws_zero ''Nurse'' None None 9 = Inr qs)"
proof -
  have k: "''Nurse'' \<notin> set object_prototype_keys"
    by (simp add: object_prototype_keys_def)
  show ?thesis
    using generator_five_to_seven [OF unit_draws_zero k, of None None 1 9] unit_draws_zero k
    by simp
qed

text \<open>
  Claim C10: for every job role string question generation returns at least 5 questions.
  The code does not do this for the job role "constructor" (any name of a member of
  \<^verbatim>\<open>Object.prototype\<close>): the lookup finds the inherited member instead of falling back to
  the empty array, the spread throws, and so does the identical call in the
  \<^verbatim>\<open>catch\<close> block. The theorem evaluates the code at this input.
\<close>

theorem inherited_key_throws:
  "generateInterviewQuestions rnd ''constructor'' ind dif requested = Inl TypeError"
  by (simp add: generateInterviewQuestions_def generateDefaultQuestions_def
      combinedQuestions_def specificQuestions_def roleSpecificQuestions_def
      object_prototype_keys_def)

section \<open>Properties of the results aggregator\<close>

lemma fold_add_score:
  "fold add_score fbs (t, n) =
    (t + sum_list (filter (\<lambda>s. s \<noteq> 0)
           (concat (map (\<lambda>fb. case confidence_score fb of None \<Rightarrow> [] | Some s \<Rightarrow> [s]) fbs))),
     n + length (filter (\<lambda>s. s \<noteq> 0)
           (concat (map (\<lambda>fb. case confidence_score fb of None \<Rightarrow> [] | Some s \<Rightarrow> [s]) fbs))))"
  by (induction fbs arbitrary: t n) (auto simp: add_score_def split: option.splits)

lemma overall_score_nonzero_scores:
  assumes "0 \<notin> set (present_scores qs)"
  shows "getOverallScore qs = spec_overall_score qs"
proof -
  have "filter (\<lambda>s. s \<noteq> 0) (present_scores qs) = present_scores qs"
    using assms by (intro filter_True) auto
  then have "fold add_score (all_feedback qs) (0, 0)
      = (sum_list (present_scores qs), length (present_scores qs))"
    by (simp add: fold_add_score present_scores_def)
  then show ?thesis
    by (simp add: getOverallScore_def spec_overall_score_def)
qed

lemma overall_score_example:
  "getOverallScore [scored_question ''1'' (Some (1 / 2)), scored_question ''2'' (Some (9 / 10))] = 70"
  by (simp add: getOverallScore_def all_feedback_def scored_question_def add_score_def)

lemma overall_score_empty: "getOverallScore [] = 0"
  by (simp add: getOverallScore_def all_feedback_def)

text \<open>
  Claim C7: the overall score is the mean of all present \<open>confidence_score\<close>
  values, scaled to 0..100. The code does not compute this when a present score is 0:
  for two feedback records with the scores 0 and 1 it returns 100, where the mean of the
  present values is 50. The theorem evaluates the code at this input.
\<close>

theorem zero_score_skipped:
  "getOverallScore [scored_question ''1'' (Some 0), scored_question ''2'' (Some 1)] = 100
   \<and> spec_overall_score [scored_question ''1'' (Some 0), scored_question ''2'' (Some 1)] = 50"
  by (simp add: getOverallScore_def all_feedback_def scored_question_def add_score_def
      spec_overall_score_def present_scores_def)

section \<open>Properties of the server actions\<close>

lemma filter_question_map:
  assumes "\<And>r. r_question_id (g r) = r_question_id r"
  shows "filter (\<lambda>r. r_question_id r = q) (map g rows)
     = map g (filter (\<lambda>r. r_question_id r = q) rows)"
  by (simp add: filter_map comp_def assms)

lemma update_responses_fst:
  "fst (update_responses e c d rid upd) =
    (if c \<in> faults e then d
     else d\<lparr>response_rows := map (\<lambda>r. if response_id r = rid then upd r else r) (response_rows d)\<rparr>)"
  by (simp add: update_responses_def)

lemma feedback_write_keeps:
  "response_rows (fst (upsert_feedback e d rid a)) = response_rows d"
  "interviews (fst (upsert_feedback e d rid a)) = interviews d"
  by (simp_all add: upsert_feedback_def insert_feedback_def update_feedback_def Let_def
      split: option.splits)

lemma analyze_fst:
  "fst (analyzeAndSaveFeedback e d rid qt tx rt jr mu) =
    (let d1 = (if needs_transcription rt mu tx
               then fst (update_responses e UpdateResponseText d rid
                      (\<lambda>r. r\<lparr>response_text := Some (transcribeMedia (or_else mu []) rt)\<rparr>))
               else d);
         t = (if needs_transcription rt mu tx then Some (transcribeMedia (or_else mu []) rt) else tx)
     in if truthy t then fst (upsert_feedback e d1 rid (analyzeResponse qt (or_else t []) rt jr))
        else d1)"
  by (simp add: analyzeAndSaveFeedback_def Let_def split_beta split: option.splits)

lemma analyze_response_rows:
  "response_rows (fst (analyzeAndSaveFeedback e d rid qt tx rt jr mu)) =
    (if needs_transcription rt mu tx \<and> UpdateResponseText \<notin> faults e
     then map (\<lambda>r. if response_id r = rid
                    then r\<lparr>response_text := Some (transcribeMedia (or_else mu []) rt)\<rparr> else r)
            (response_rows d)
     else response_rows d)"
  by (simp add: analyze_fst Let_def feedback_write_keeps update_responses_fst)

lemma analyze_interviews:
  "interviews (fst (analyzeAndSaveFeedback e d rid qt tx rt jr mu)) = interviews d"
  by (simp add: analyze_fst Let_def feedback_write_keeps update_responses_fst)

lemma upsert_response_interviews:
  "interviews (fst (upsert_response e d q rt tx mu)) = interviews d"
  by (simp add: upsert_response_def update_responses_fst insert_response_def Let_def
      split: option.splits)

lemma save_fst:
  "fst (saveResponseWithFeedback e d q rt tx mu qt jr) =
    (case snd (upsert_response e d q rt tx mu) of
       Inl err \<Rightarrow> fst (upsert_response e d q rt tx mu)
     | Inr rid \<Rightarrow> fst (analyzeAndSaveFeedback e (fst (upsert_response e d q rt tx mu)) rid qt tx
                        rt jr mu))"
  by (simp add: saveResponseWithFeedback_def split_beta split: sum.splits)

lemma save_interviews:
  "interviews (fst (saveResponseWithFeedback e d q rt tx mu qt jr)) = interviews d"
  by (simp add: save_fst analyze_interviews upsert_response_interviews split: sum.splits)

text \<open>The response upsert on a store that holds at most one response of the question.\<close>

lemma upsert_response_row:
  assumes "SelectResponse \<notin> faults e" "UpdateResponse \<notin> faults e" "InsertResponse \<notin> faults e"
    and "length (responses_for d q) \<le> 1"
  shows "\<exists>r. responses_for (fst (upsert_response e d q rt tx mu)) q = [r]
     \<and> snd (upsert_response e d q rt tx mu) = Inr (response_id r)
     \<and> response_type r = rt \<and> response_text r = tx \<and> media_url r = mu
     \<and> (\<forall>r0. responses_for d q = [r0] \<longrightarrow> response_id r = response_id r0)
     \<and> (responses_for d q = [] \<longrightarrow> response_id r = uuid e (next_id d))"
proof (cases "responses_for d q")
  case Nil
  then have "select_response e d q = None"
    by (simp add: select_response_def single_def)
  then show ?thesis
    using assms(3) Nil
    by (simp add: upsert_response_def insert_response_def Let_def responses_for_def)
next
  case (Cons r0 rest)
  with assms(4) have one: "responses_for d q = [r0]" by simp
  then have sel: "select_response e d q = Some (response_id r0)"
    using assms(1) by (simp add: select_response_def single_def)
  let ?g = "\<lambda>r. if response_id r = response_id r0
     then r\<lparr>response_type := rt, response_text := tx, media_url := mu\<rparr> else r"
  have "responses_for (fst (upsert_response e d q rt tx mu)) q
      = filter (\<lambda>r. r_question_id r = q) (map ?g (response_rows d))"
    using sel assms(2) by (simp add: upsert_response_def update_responses_fst responses_for_def)
  also have "\<dots> = map ?g (filter (\<lambda>r. r_question_id r = q) (response_rows d))"
    by (rule filter_question_map) simp
  also have "\<dots> = [r0\<lparr>response_type := rt, response_text := tx, media_url := mu\<rparr>]"
    using one by (simp add: responses_for_def)
  finally show ?thesis
    using sel one by (simp add: upsert_response_def)
qed

lemma save_response_row:
  assumes "SelectResponse \<notin> faults e" "UpdateResponse \<notin> faults e" "InsertResponse \<notin> faults e"
    and "UpdateResponseText \<notin> faults e"
    and "length (responses_for d q) \<le> 1"
  shows "\<exists>r. responses_for (fst (saveResponseWithFeedback e d q rt tx mu qt jr)) q = [r]
     \<and> response_type r = rt \<and> media_url r = mu
     \<and> response_text r =
         (if needs_transcription rt mu tx then Some (transcribeMedia (or_else mu []) rt) else tx)
     \<and> (\<forall>r0. responses_for d q = [r0] \<longrightarrow> response_id r = response_id r0)
     \<and> (responses_for d q = [] \<longrightarrow> response_id r = uuid e (next_id d))"
proof -
  let ?d1 = "fst (upsert_response e d q rt tx mu)"
  from upsert_response_row [OF assms(1-3) assms(5), of rt tx mu]
  obtain r where r: "responses_for ?d1 q = [r]"
    and rid: "snd (upsert_response e d q rt tx mu) = Inr (response_id r)"
    and content: "response_type r = rt" "response_text r = tx" "media_url r = mu"
    and kept: "\<forall>r0. responses_for d q = [r0] \<longrightarrow> response_id r = response_id r0"
      "responses_for d q = [] \<longrightarrow> response_id r = uuid e (next_id d)"
    by blast
  let ?g = "\<lambda>x. if response_id x = response_id r
     then x\<lparr>response_text := Some (transcribeMedia (or_else mu []) rt)\<rparr> else x"
  let ?d2 = "fst (saveResponseWithFeedback e d q rt tx mu qt jr)"
  have d2: "?d2 = fst (analyzeAndSaveFeedback e ?d1 (response_id r) qt tx rt jr mu)"
    by (simp add: save_fst rid)
  show ?thesis
  proof (cases "needs_transcription rt mu tx")
    case True
    have "responses_for ?d2 q = filter (\<lambda>x. r_question_id x = q) (map ?g (response_rows ?d1))"
      using True assms(4) by (simp add: d2 responses_for_def analyze_response_rows)
    also have "\<dots> = map ?g (filter (\<lambda>x. r_question_id x = q) (response_rows ?d1))"
      by (rule filter_question_map) simp
    also have "\<dots> = [r\<lparr>response_text := Some (transcribeMedia (or_else mu []) rt)\<rparr>]"
      using r by (simp add: responses_for_def)
    finally show ?thesis
      using True content kept by simp
  next
    case False
    then have "responses_for ?d2 q = [r]"
      using r by (simp add: d2 responses_for_def analyze_response_rows)
    then show ?thesis
      using False content kept by simp
  qed
qed

text \<open>
  Claim C6: response submission upserts by question id. With the storage calls on the
  responses table succeeding, on a store that holds at most one Response of the question:
  after \<^verbatim>\<open>saveResponseWithFeedback\<close> the question has exactly one Response row, with the
  submitted type, media URL and text (the transcription, for media without text), and
  with the id of the row that was there before, if there was one; after a second
  submission for the same question there is still exactly one row, with the id of the
  first and the content of the second.
\<close>

theorem response_upsert:
  assumes "SelectResponse \<notin> faults e" "UpdateResponse \<notin> faults e" "InsertResponse \<notin> faults e"
    and "UpdateResponseText \<notin> faults e"
    and "length (responses_for d q) \<le> 1"
  shows "\<exists>r1 r2.
       responses_for (fst (saveResponseWithFeedback e d q rt1 tx1 mu1 qt jr)) q = [r1]
     \<and> response_type r1 = rt1 \<and> media_url r1 = mu1
     \<and> response_text r1 =
         (if needs_transcription rt1 mu1 tx1 then Some (transcribeMedia (or_else mu1 []) rt1)
          else tx1)
     \<and> (\<forall>r0. responses_for d q = [r0] \<longrightarrow> response_id r1 = response_id r0)
     \<and> (responses_for d q = [] \<longrightarrow> response_id r1 = uuid e (next_id d))
     \<and> responses_for
          (fst (saveResponseWithFeedback e
             (fst (saveResponseWithFeedback e d q rt1 tx1 mu1 qt jr)) q rt2 tx2 mu2 qt jr)) q = [r2]
     \<and> response_id r2 = response_id r1
     \<and> response_type r2 = rt2 \<and> media_url r2 = mu2
     \<and> response_text r2 =
         (if needs_transcription rt2 mu2 tx2 then Some (transcribeMedia (or_else mu2 []) rt2)
          else tx2)"
proof -
  let ?d1 = "fst (saveResponseWithFeedback e d q rt1 tx1 mu1 qt jr)"
  from save_response_row [OF assms, of rt1 tx1 mu1 qt jr]
  obtain r1 where r1: "responses_for ?d1 q = [r1]"
    and c1: "response_type r1 = rt1" "media_url r1 = mu1"
      "response_text r1 =
         (if needs_transcription rt1 mu1 tx1 then Some (transcribeMedia (or_else mu1 []) rt1)
          else tx1)"
      "\<forall>r0. responses_for d q = [r0] \<longrightarrow> response_id r1 = response_id r0"
      "responses_for d q = [] \<longrightarrow> response_id r1 = uuid e (next_id d)"
    by blast
  have one: "length (responses_for ?d1 q) \<le> 1" by (simp add: r1)
  from save_response_row [OF assms(1-4) one, of rt2 tx2 mu2 qt jr]
  obtain r2 where r2:
      "responses_for (fst (saveResponseWithFeedback e ?d1 q rt2 tx2 mu2 qt jr)) q = [r2]"
    and c2: "response_type r2 = rt2" "media_url r2 = mu2"
      "response_text r2 =
         (if needs_transcription rt2 mu2 tx2 then Some (transcribeMedia (or_else mu2 []) rt2)
          else tx2)"
      "\<forall>r0. responses_for ?d1 q = [r0] \<longrightarrow> response_id r2 = response_id r0"
    by blast
  have same: "response_id r2 = response_id r1"
    using c2(4) r1 by simp
  show ?thesis
    using r1 c1 r2 c2(1-3) same by blast
qed

theorem response_upsert_witness:
  "SelectResponse \<notin> faults (test_env {}) \<and> UpdateResponse \<notin> faults (test_env {})
   \<and> InsertResponse \<notin> faults (test_env {}) \<and> UpdateResponseText \<notin> faults (test_env {})
   \<and> length (responses_for (ex_db []) ''q1'') \<le> 1
   \<and> (\<exists>r1 r2.
       responses_for (fst (saveResponseWithFeedback (test_env {}) (ex_db []) ''q1'' Text
          (Some ''first'') None ''Q'' ''Nurse'')) ''q1'' = [r1]
     \<and> response_type r1 = Text \<and> media_url r1 = None
     \<and> response_text r1 = Some ''first''
     \<and> response_id r1 = uuid (test_env {}) (next_id (ex_db []))
     \<and> responses_for
          (fst (saveResponseWithFeedback (test_env {})
             (fst (saveResponseWithFeedback (test_env {}) (ex_db []) ''q1'' Text
                (Some ''first'') None ''Q'' ''Nurse'')) ''q1'' Audio None (Some ''url'') ''Q'' ''Nurse''))
          ''q1'' = [r2]
     \<and> response_id r2 = response_id r1
     \<and> response_type r2 = Audio \<and> media_url r2 = Some ''url''
     \<and> response_text r2 = Some (transcribeMedia ''url'' Audio))"
proof -
  have h: "SelectResponse \<notin> faults (test_env {})" "UpdateResponse \<notin> faults (test_env {})"
    "InsertResponse \<notin> faults (test_env {})" "UpdateResponseText \<notin> faults (test_env {})"
    by (simp_all add: test_env_def)
  have l: "length (responses_for (ex_db []) ''q1'') \<le> 1"
    and n: "responses_for (ex_db []) ''q1'' = []"
    by (simp_all add: responses_for_def ex_db_def)
  have t: "needs_transcription Audio (Some ''url'') None" "\<not> needs_transcription Text None (Some ''first'')"
    "or_else (Some ''url'') [] = ''url''"
    by (simp_all add: needs_transcription_def truthy_def or_else_def)
  from response_upsert [OF h l, of Text "Some ''first''" None "''Q''" "''Nurse''" Audio None "Some ''url''"]
  show ?thesis
    using h l n t by simp
qed

section \<open>Properties of the session orchestrator\<close>

lemma upload_fst:
  "interviews (fst (upload e c d k b)) = interviews d"
  "response_rows (fst (upload e c d k b)) = response_rows d"
  by (simp_all add: upload_def)

lemma process_response_ok:
  assumes "UploadVideo \<notin> faults e" "UploadAudio \<notin> faults e"
  shows "\<exists>d1 tx mu. process_response e p s d q = Inr (d1, tx, mu) \<and> interviews d1 = interviews d"
  using assms by (simp add: process_response_def upload_def Let_def)

lemma process_response_text:
  "responseType s = Text \<Longrightarrow> process_response e p s d q = Inr (d, Some (textResponse s), None)"
  by (simp add: process_response_def)

lemma process_response_upload_fails:
  assumes "responseType s = Video \<and> videoBlob s \<noteq> None \<and> UploadVideo \<in> faults e
     \<or> responseType s = Audio \<and> audioBlob s \<noteq> None \<and> UploadAudio \<in> faults e"
  shows "process_response e p s d q = Inl (Error storage_error)"
  using assms by (auto simp: process_response_def upload_def Let_def)

lemma saveResponse_thrown:
  assumes "currentQuestionIndex s < length (p_questions p)"
    and "process_response e p s d (p_questions p ! currentQuestionIndex s) = Inl err"
  shows "saveResponse e p s d = ((s\<lparr>feedbackLoading := True\<rparr>, d), Inl err)"
  using assms by (simp add: saveResponse_def currentQuestion_def)

lemma saveResponse_returns:
  assumes "currentQuestionIndex s < length (p_questions p)"
    and "process_response e p s d (p_questions p ! currentQuestionIndex s) = Inr (d1, tx, mu)"
  shows "saveResponse e p s d =
    ((s\<lparr>toasts := toasts s @
           [case snd (saveResponseWithFeedback e d1
                 (question_id (p_questions p ! currentQuestionIndex s)) (responseType s) tx mu
                 (question_text (p_questions p ! currentQuestionIndex s))
                 (job_role (p_interview p))) of
              Inl err \<Rightarrow> AnalyzeFailed | Inr res \<Rightarrow> ResponseSaved],
         feedbackLoading := False\<rparr>,
      fst (saveResponseWithFeedback e d1
             (question_id (p_questions p ! currentQuestionIndex s)) (responseType s) tx mu
             (question_text (p_questions p ! currentQuestionIndex s))
             (job_role (p_interview p)))),
     Inr ())"
  using assms
  by (simp add: saveResponse_def currentQuestion_def Let_def split_beta split: sum.splits)

lemma complete_interviews:
  "UpdateInterview \<notin> faults e \<Longrightarrow>
    interviews (fst (completeInterview e d iid)) =
      map (\<lambda>i. if interview_id i = iid then i\<lparr>status := completed, completed_at := Some (now e)\<rparr>
                else i) (interviews d)"
  by (simp add: completeInterview_def update_interviews_def)

lemma completed_after_update:
  assumes "iid \<in> interview_id ` set ivs"
  shows "interview_completed
     (d\<lparr>interviews := map (\<lambda>i. if interview_id i = iid
          then i\<lparr>status := completed, completed_at := Some t\<rparr> else i) ivs\<rparr>) iid"
proof -
  let ?g = "\<lambda>i. if interview_id i = iid then i\<lparr>status := completed, completed_at := Some t\<rparr> else i"
  have "filter (\<lambda>i. interview_id i = iid) (map ?g ivs) = map ?g (filter (\<lambda>i. interview_id i = iid) ivs)"
    by (simp add: filter_map comp_def)
  moreover have "filter (\<lambda>i. interview_id i = iid) ivs \<noteq> []"
    using assms by (auto simp: filter_empty_conv)
  ultimately show ?thesis
    by (simp add: interview_completed_def list_all_iff)
qed

lemma handleNext_after_save:
  assumes "currentQuestionIndex s < length (p_questions p)"
    and "saveResponse e p (s\<lparr>isSubmitting := True\<rparr>) d = ((s2, d2), Inr ())"
  shows "handleNextQuestion e p s d =
    (if currentQuestionIndex s < length (p_questions p) - 1 then
       ((resetResponseState (s2\<lparr>currentQuestionIndex := currentQuestionIndex s + 1\<rparr>))
          \<lparr>isSubmitting := False\<rparr>, d2)
     else
       (s2\<lparr>toasts := toasts s2 @ [InterviewCompleted],
           pushed_route := Some (''/interviews/'' @ interview_id (p_interview p) @ ''/results''),
           isCompleted := True, isSubmitting := False\<rparr>,
        fst (completeInterview e d2 (interview_id (p_interview p)))))"
  using assms
  by (simp add: handleNextQuestion_def currentQuestion_def completeInterviewSession_def
      completeInterview_def)

lemma saveResponse_ok:
  assumes "currentQuestionIndex s < length (p_questions p)"
    and "UploadVideo \<notin> faults e" "UploadAudio \<notin> faults e"
  shows "\<exists>s2 d2. saveResponse e p s d = ((s2, d2), Inr ()) \<and> interviews d2 = interviews d
     \<and> s2 = s\<lparr>toasts := toasts s2, feedbackLoading := False\<rparr>"
proof -
  from process_response_ok [OF assms(2,3)]
  obtain d1 tx mu
    where pr: "process_response e p s d (p_questions p ! currentQuestionIndex s) = Inr (d1, tx, mu)"
      and iv: "interviews d1 = interviews d"
    by blast
  show ?thesis
    by (simp add: saveResponse_returns [OF assms(1) pr] save_interviews iv)
qed

text \<open>
  Claim C5: advancing on the last question sets the Interview's status to completed with
  a non-null \<open>completed_at\<close>; advancing on any other question leaves the interviews
  table (hence the status \<open>in_progress\<close>) as it is and moves the cursor by exactly 1.
  "Advancing" is a call of \<^verbatim>\<open>handleNextQuestion\<close> on a question of the interview whose media
  upload and whose update of the interview row are carried out by the storage service;
  the Interview is a row of the store.
\<close>

theorem advance_or_complete:
  assumes "currentQuestionIndex s < length (p_questions p)"
    and "UploadVideo \<notin> faults e" "UploadAudio \<notin> faults e" "UpdateInterview \<notin> faults e"
    and "interview_id (p_interview p) \<in> interview_id ` set (interviews d)"
  shows "if currentQuestionIndex s = length (p_questions p) - 1
     then interview_completed (snd (handleNextQuestion e p s d)) (interview_id (p_interview p))
        \<and> isCompleted (fst (handleNextQuestion e p s d))
     else interviews (snd (handleNextQuestion e p s d)) = interviews d
        \<and> currentQuestionIndex (fst (handleNextQuestion e p s d)) = currentQuestionIndex s + 1
        \<and> isCompleted (fst (handleNextQuestion e p s d)) = isCompleted s"
proof -
  let ?s1 = "s\<lparr>isSubmitting := True\<rparr>"
  have idx: "currentQuestionIndex ?s1 < length (p_questions p)"
    using assms(1) by simp
  from saveResponse_ok [OF idx assms(2,3), of d]
  obtain s2 d2 where sv: "saveResponse e p ?s1 d = ((s2, d2), Inr ())"
    and iv: "interviews d2 = interviews d"
    and s2: "s2 = ?s1\<lparr>toasts := toasts s2, feedbackLoading := False\<rparr>"
    by blast
  have keep: "isCompleted s2 = isCompleted s"
    by (subst s2) simp
  show ?thesis
  proof (cases "currentQuestionIndex s = length (p_questions p) - 1")
    case True
    have "interviews (fst (completeInterview e d2 (interview_id (p_interview p)))) =
        map (\<lambda>i. if interview_id i = interview_id (p_interview p)
                  then i\<lparr>status := completed, completed_at := Some (now e)\<rparr> else i) (interviews d)"
      by (simp add: complete_interviews [OF assms(4)] iv)
    then have "interview_completed (fst (completeInterview e d2 (interview_id (p_interview p))))
        (interview_id (p_interview p))"
      using completed_after_update [OF assms(5), where d = d2 and t = "now e"]
      by (simp add: interview_completed_def iv)
    then show ?thesis
      using True by (simp add: handleNext_after_save [OF assms(1) sv])
  next
    case False
    then have "currentQuestionIndex s < length (p_questions p) - 1"
      using assms(1) by linarith
    then show ?thesis
      using False by (simp add: handleNext_after_save [OF assms(1) sv] iv keep resetResponseState_def)
  qed
qed

lemmas ex_defs = test_env_def ex_db_def ex_session_def ex_props_def ex_questions_def ex_interview_def
  InterviewSession_def

theorem advance_or_complete_witness:
  "currentQuestionIndex (ex_session 1 ''I lead a team'') < length (p_questions ex_props)
   \<and> UploadVideo \<notin> faults (test_env {}) \<and> UploadAudio \<notin> faults (test_env {})
   \<and> UpdateInterview \<notin> faults (test_env {})
   \<and> interview_id (p_interview ex_props) \<in> interview_id ` set (interviews (ex_db []))
   \<and> currentQuestionIndex (ex_session 1 ''I lead a team'') = length (p_questions ex_props) - 1
   \<and> interview_completed
        (snd (handleNextQuestion (test_env {}) ex_props (ex_session 1 ''I lead a team'') (ex_db [])))
        (interview_id (p_interview ex_props))
   \<and> isCompleted (fst (handleNextQuestion (test_env {}) ex_props (ex_session 1 ''I lead a team'')
        (ex_db [])))"
proof -
  have h1: "currentQuestionIndex (ex_session 1 ''I lead a team'') < length (p_questions ex_props)"
    by (simp add: ex_defs)
  have h2: "UploadVideo \<notin> faults (test_env {})" "UploadAudio \<notin> faults (test_env {})"
    "UpdateInterview \<notin> faults (test_env {})"
    by (simp_all add: test_env_def)
  have h3: "interview_id (p_interview ex_props) \<in> interview_id ` set (interviews (ex_db []))"
    by (simp add: ex_defs)
  have last: "currentQuestionIndex (ex_session 1 ''I lead a team'') = length (p_questions ex_props) - 1"
    by (simp add: ex_defs)
  from advance_or_complete [OF h1 h2 h3]
  show ?thesis
    using h1 h2 h3 last by simp
qed

lemma upsert_response_ok:
  assumes "InsertResponse \<notin> faults e"
  shows "\<exists>rid. snd (upsert_response e d q rt tx mu) = Inr rid"
  using assms
  by (simp add: upsert_response_def insert_response_def Let_def split: option.splits)

lemma upsert_feedback_faulty:
  assumes "InsertFeedback \<in> faults e" "UpdateFeedback \<in> faults e"
  shows "upsert_feedback e d rid a = (d, Some storage_error)"
  using assms
  by (simp add: upsert_feedback_def insert_feedback_def update_feedback_def split: option.splits)

lemma save_fails_on_feedback:
  assumes "InsertResponse \<notin> faults e" "InsertFeedback \<in> faults e" "UpdateFeedback \<in> faults e"
    and "tx \<noteq> []"
  shows "snd (saveResponseWithFeedback e d q Text (Some tx) None qt jr) = Inl storage_error"
proof -
  from upsert_response_ok [OF assms(1)]
  obtain rid where rid: "snd (upsert_response e d q Text (Some tx) None) = Inr rid" by blast
  have "snd (analyzeAndSaveFeedback e (fst (upsert_response e d q Text (Some tx) None)) rid qt
       (Some tx) Text jr None) = Inl storage_error"
    using assms(4)
    by (simp add: analyzeAndSaveFeedback_def needs_transcription_def truthy_def Let_def
        upsert_feedback_faulty [OF assms(2,3)])
  then show ?thesis
    using rid by (simp add: saveResponseWithFeedback_def split_beta storage_error_def)
qed

lemmas op_defs = handleNextQuestion_def saveResponse_def currentQuestion_def process_response_def
  saveResponseWithFeedback_def upsert_response_def select_response_def responses_for_def single_def
  insert_response_def analyzeAndSaveFeedback_def needs_transcription_def truthy_def or_else_def
  analyzeResponse_def upsert_feedback_def select_feedback_def feedback_for_def insert_feedback_def
  update_feedback_def update_responses_def resetResponseState_def completeInterviewSession_def
  completeInterview_def update_interviews_def upload_def storage_error_def Let_def

text \<open>
  Claim C1, as stated: a failure of any sub-step of the advance leaves the cursor where
  it is and the Interview in progress. It fails: with the insert of the feedback failing,
  \<^verbatim>\<open>saveResponseWithFeedback\<close> reports the failure, and \<^verbatim>\<open>handleNextQuestion\<close> moves the
  cursor from question 0 to question 1; on the last question it marks the Interview
  completed.
\<close>

theorem feedback_failure_advances_counterexample:
  "snd (saveResponseWithFeedback (test_env {InsertFeedback}) (ex_db []) ''q1'' Text
          (Some ''I have 5 years of experience'') None
          ''Tell me about your experience as a Nurse.'' ''Nurse'') = Inl storage_error
   \<and> currentQuestionIndex (fst (handleNextQuestion (test_env {InsertFeedback}) ex_props
          (ex_session 0 ''I have 5 years of experience'') (ex_db []))) = 1
   \<and> map status (interviews (snd (handleNextQuestion (test_env {InsertFeedback}) ex_props
          (ex_session 1 ''I have 5 years of experience'') (ex_db [])))) = [completed]"
  by (simp add: ex_defs op_defs)

text \<open>
  Claim C1, amended. For every question index of the interview: a failure of the media
  upload is thrown to \<^verbatim>\<open>handleNextQuestion\<close>, which leaves the store, the cursor, the
  completion flag and the recorded answer as they are and shows the error toast; a
  failure of persisting the feedback of a typed answer is shown to the user (the toast
  of \<^verbatim>\<open>saveResponse\<close>) and is not thrown, so the cursor moves on by 1, or on the last
  question the session is completed.
\<close>

theorem step_failure_policy:
  assumes "currentQuestionIndex s < length (p_questions p)"
    and "responseType s = Video \<and> videoBlob s \<noteq> None \<and> UploadVideo \<in> faults e
       \<or> responseType s = Audio \<and> audioBlob s \<noteq> None \<and> UploadAudio \<in> faults e"
    and "currentQuestionIndex s' < length (p_questions p)"
    and "responseType s' = Text" "textResponse s' \<noteq> []"
    and "InsertResponse \<notin> faults e'" "InsertFeedback \<in> faults e'" "UpdateFeedback \<in> faults e'"
  shows "snd (handleNextQuestion e p s d) = d
     \<and> currentQuestionIndex (fst (handleNextQuestion e p s d)) = currentQuestionIndex s
     \<and> isCompleted (fst (handleNextQuestion e p s d)) = isCompleted s
     \<and> toasts (fst (handleNextQuestion e p s d)) = toasts s @ [SaveFailed]
     \<and> videoBlob (fst (handleNextQuestion e p s d)) = videoBlob s
     \<and> audioBlob (fst (handleNextQuestion e p s d)) = audioBlob s
     \<and> AnalyzeFailed \<in> set (toasts (fst (handleNextQuestion e' p s' d)))
     \<and> (if currentQuestionIndex s' < length (p_questions p) - 1
         then currentQuestionIndex (fst (handleNextQuestion e' p s' d)) = currentQuestionIndex s' + 1
         else isCompleted (fst (handleNextQuestion e' p s' d)))"
proof -
  let ?s1 = "s\<lparr>isSubmitting := True\<rparr>"
  have "process_response e p ?s1 d (p_questions p ! currentQuestionIndex ?s1)
      = Inl (Error storage_error)"
    using assms(2) by (intro process_response_upload_fails) simp
  then have "saveResponse e p ?s1 d = ((?s1\<lparr>feedbackLoading := True\<rparr>, d), Inl (Error storage_error))"
    using assms(1) by (intro saveResponse_thrown) simp_all
  then have upload: "handleNextQuestion e p s d =
      (s\<lparr>isSubmitting := False, feedbackLoading := True, toasts := toasts s @ [SaveFailed]\<rparr>, d)"
    using assms(1) by (simp add: handleNextQuestion_def currentQuestion_def)
  let ?t1 = "s'\<lparr>isSubmitting := True\<rparr>"
  let ?q = "p_questions p ! currentQuestionIndex s'"
  let ?d2 = "fst (saveResponseWithFeedback e' d (question_id ?q) Text (Some (textResponse s')) None
       (question_text ?q) (job_role (p_interview p)))"
  have "process_response e' p ?t1 d (p_questions p ! currentQuestionIndex ?t1)
      = Inr (d, Some (textResponse ?t1), None)"
    using assms(4) by (intro process_response_text) simp
  then have pr: "process_response e' p ?t1 d (p_questions p ! currentQuestionIndex ?t1)
      = Inr (d, Some (textResponse s'), None)"
    by simp
  have idx: "currentQuestionIndex ?t1 < length (p_questions p)"
    using assms(3) by simp
  have sv: "saveResponse e' p ?t1 d =
      ((?t1\<lparr>toasts := toasts s' @ [AnalyzeFailed], feedbackLoading := False\<rparr>, ?d2), Inr ())"
    using assms(4)
    by (simp add: saveResponse_returns [OF idx pr]
        save_fails_on_feedback [OF assms(6) assms(7) assms(8) assms(5)])
  have feedback: "AnalyzeFailed \<in> set (toasts (fst (handleNextQuestion e' p s' d)))
     \<and> (if currentQuestionIndex s' < length (p_questions p) - 1
         then currentQuestionIndex (fst (handleNextQuestion e' p s' d)) = currentQuestionIndex s' + 1
         else isCompleted (fst (handleNextQuestion e' p s' d)))"
    by (simp add: handleNext_after_save [OF assms(3) sv] resetResponseState_def)
  show ?thesis
    using feedback by (simp add: upload)
qed

theorem step_failure_policy_witness:
  "currentQuestionIndex ex_video_session < length (p_questions ex_props)
   \<and> (responseType ex_video_session = Video \<and> videoBlob ex_video_session \<noteq> None
        \<and> UploadVideo \<in> faults (test_env {UploadVideo})
      \<or> responseType ex_video_session = Audio \<and> audioBlob ex_video_session \<noteq> None
        \<and> UploadAudio \<in> faults (test_env {UploadVideo}))
   \<and> currentQuestionIndex (ex_session 0 ''I lead a team'') < length (p_questions ex_props)
   \<and> responseType (ex_session 0 ''I lead a team'') = Text
   \<and> textResponse (ex_session 0 ''I lead a team'') \<noteq> []
   \<and> InsertResponse \<notin> faults (test_env {InsertFeedback, UpdateFeedback})
   \<and> InsertFeedback \<in> faults (test_env {InsertFeedback, UpdateFeedback})
   \<and> UpdateFeedback \<in> faults (test_env {InsertFeedback, UpdateFeedback})
   \<and> snd (handleNextQuestion (test_env {UploadVideo}) ex_props ex_video_session (ex_db [])) = ex_db []
   \<and> currentQuestionIndex
        (fst (handleNextQuestion (test_env {UploadVideo}) ex_props ex_video_session (ex_db []))) = 0
   \<and> toasts (fst (handleNextQuestion (test_env {UploadVideo}) ex_props ex_video_session (ex_db [])))
        = [SaveFailed]
   \<and> AnalyzeFailed \<in> set (toasts (fst (handleNextQuestion (test_env {InsertFeedback, UpdateFeedback})
        ex_props (ex_session 0 ''I lead a team'') (ex_db []))))
   \<and> currentQuestionIndex (fst (handleNextQuestion (test_env {InsertFeedback, UpdateFeedback})
        ex_props (ex_session 0 ''I lead a team'') (ex_db []))) = 1"
proof -
  have h1: "currentQuestionIndex ex_video_session < length (p_questions ex_props)"
    by (simp add: ex_defs ex_video_session_def)
  have h2: "responseType ex_video_session = Video \<and> videoBlob ex_video_session \<noteq> None
        \<and> UploadVideo \<in> faults (test_env {UploadVideo})
      \<or> responseType ex_video_session = Audio \<and> audioBlob ex_video_session \<noteq> None
        \<and> UploadAudio \<in> faults (test_env {UploadVideo})"
    by (simp add: ex_defs ex_video_session_def)
  have h3: "currentQuestionIndex (ex_session 0 ''I lead a team'') < length (p_questions ex_props)"
    and h4: "responseType (ex_session 0 ''I lead a team'') = Text"
    and h5: "textResponse (ex_session 0 ''I lead a team'') \<noteq> []"
    by (simp_all add: ex_defs)
  have h6: "InsertResponse \<notin> faults (test_env {InsertFeedback, UpdateFeedback})"
    and h7: "InsertFeedback \<in> faults (test_env {InsertFeedback, UpdateFeedback})"
    and h8: "UpdateFeedback \<in> faults (test_env {InsertFeedback, UpdateFeedback})"
    by (simp_all add: test_env_def)
  have v: "currentQuestionIndex ex_video_session = 0" "toasts ex_video_session = []"
    "currentQuestionIndex (ex_session 0 ''I lead a team'') = 0"
    "0 < length (p_questions ex_props) - 1"
    by (simp_all add: ex_defs ex_video_session_def)
  from step_failure_policy [OF h1 h2 h3 h4 h5 h6 h7 h8, of "ex_db []"]
  show ?thesis
    using h1 h2 h3 h4 h5 h6 h7 h8 v by simp
qed

text \<open>
  Claim C4: storage-write failures are never masked. The code does not do this for the
  update of an existing Response: the \<^verbatim>\<open>error\<close> of that update is not read (the insert
  and both feedback writes do read theirs). With a Response already stored for the
  question and the update failing, \<^verbatim>\<open>saveResponseWithFeedback\<close> reports success and the
  row still holds the old answer. The theorem evaluates the code at this input.
\<close>

theorem unchecked_update_masked:
  "snd (saveResponseWithFeedback (test_env {UpdateResponse}) (ex_db [ex_response ''old''])
          ''q1'' Text (Some ''new'') None ''Tell me about your experience as a Nurse.'' ''Nurse'')
     = Inr (''r1'', generateDefaultFeedback)
   \<and> map response_text (response_rows
        (fst (saveResponseWithFeedback (test_env {UpdateResponse}) (ex_db [ex_response ''old''])
          ''q1'' Text (Some ''new'') None ''Tell me about your experience as a Nurse.'' ''Nurse'')))
     = [Some ''old'']"
  by (simp add: ex_defs ex_response_def op_defs)

lemma generation_never_fails:
  "analyzeResponse qt tx rt jr = generateDefaultFeedback"
  "transcribeMedia mu rt = transcribeMedia mu' rt'"
  by (simp_all add: analyzeResponse_def transcribeMedia_def)

section \<open>Properties of interview creation and of resuming\<close>

lemma inherited_keys_not_own:
  "\<forall>k \<in> set object_prototype_keys. map_of roleSpecificQuestions k = None"
  by (simp add: object_prototype_keys_def roleSpecificQuestions_def)

lemma generation_throws:
  assumes "jobRole \<in> set object_prototype_keys"
  shows "generateInterviewQuestions rnd jobRole ind dif requested = Inl TypeError"
  using assms inherited_keys_not_own
  by (simp add: generateInterviewQuestions_def generateDefaultQuestions_def combinedQuestions_def
      specificQuestions_def)

lemma generation_returns:
  assumes "jobRole \<notin> set object_prototype_keys"
  shows "\<exists>qs. generateInterviewQuestions rnd jobRole ind dif requested = Inr qs \<and> 5 \<le> length qs"
proof -
  from combinedQuestions_total [OF assms, of ind]
  obtain combined where "combinedQuestions jobRole ind = Inr combined"
    and "length combined = 5 \<or> length combined = 9"
    by blast
  then show ?thesis
    by (auto simp: generateInterviewQuestions_def generateDefaultQuestions_def
        length_shuffleArray length_adjust_difficulty)
qed

lemma create_insert_fails:
  "InsertInterview \<in> faults e \<Longrightarrow> createInterviewWithQuestions e d fd = (d, Inl storage_error)"
  by (simp add: createInterviewWithQuestions_def)

lemma create_questions_fail:
  assumes "InsertInterview \<notin> faults e"
    and "InsertQuestions \<in> faults e \<or> fd_jobRole fd \<in> set object_prototype_keys"
  shows "createInterviewWithQuestions e d fd =
    (d\<lparr>interviews := interviews d @ [new_interview e d fd], next_id := Suc (next_id d)\<rparr>,
     Inl (if fd_jobRole fd \<in> set object_prototype_keys then error_message TypeError
          else storage_error))"
proof (cases "fd_jobRole fd \<in> set object_prototype_keys")
  case True
  then show ?thesis
    using assms(1)
    by (simp add: createInterviewWithQuestions_def generateAndSaveQuestions_def Let_def
        generation_throws error_message_def)
next
  case False
  from generation_returns [OF False]
  obtain qs where "generateInterviewQuestions (random e) (fd_jobRole fd)
      (or_null (fd_industry fd)) (or_null (fd_difficulty fd)) 5 = Inr qs"
    by blast
  then show ?thesis
    using assms False
    by (simp add: createInterviewWithQuestions_def generateAndSaveQuestions_def Let_def
        storage_error_def)
qed

lemma create_succeeds:
  assumes "InsertInterview \<notin> faults e" "InsertQuestions \<notin> faults e"
    and "fd_jobRole fd \<notin> set object_prototype_keys"
  shows "\<exists>qs. generateInterviewQuestions (random e) (fd_jobRole fd)
        (or_null (fd_industry fd)) (or_null (fd_difficulty fd)) 5 = Inr qs
     \<and> 5 \<le> length qs
     \<and> createInterviewWithQuestions e d fd =
        (d\<lparr>interviews := interviews d @ [new_interview e d fd],
           questions := questions d @
             questionsToInsert e (interview_id (new_interview e d fd)) (Suc (next_id d)) 0 qs,
           next_id := Suc (next_id d) + length qs\<rparr>,
         Inr (interview_id (new_interview e d fd)))"
proof -
  from generation_returns [OF assms(3)]
  obtain qs where g: "generateInterviewQuestions (random e) (fd_jobRole fd)
      (or_null (fd_industry fd)) (or_null (fd_difficulty fd)) 5 = Inr qs"
    and l: "5 \<le> length qs"
    by blast
  have "createInterviewWithQuestions e d fd =
        (d\<lparr>interviews := interviews d @ [new_interview e d fd],
           questions := questions d @
             questionsToInsert e (interview_id (new_interview e d fd)) (Suc (next_id d)) 0 qs,
           next_id := Suc (next_id d) + length qs\<rparr>,
         Inr (interview_id (new_interview e d fd)))"
    using assms(1,2) g
    by (simp add: createInterviewWithQuestions_def generateAndSaveQuestions_def Let_def)
  with g l show ?thesis by blast
qed

lemma length_questionsToInsert: "length (questionsToInsert e iid n i qs) = length qs"
  by (induction qs arbitrary: n i) simp_all

lemma order_questionsToInsert:
  "map order_number (questionsToInsert e iid n i qs) = map Suc [i ..< i + length qs]"
proof (induction qs arbitrary: n i)
  case Nil
  then show ?case by simp
next
  case (Cons q qs)
  have "[i ..< i + Suc (length qs)] = i # [Suc i ..< i + Suc (length qs)]"
    by (rule upt_conv_Cons) simp
  then show ?case
    using Cons.IH [of "Suc n" "Suc i"] by (simp del: upt_Suc)
qed

text \<open>
  Claim C2, as stated: when the questions cannot be inserted, no Interview without its
  questions stays retrievable, or a cleanup is attempted. It fails: with the insert of
  the questions failing, the action reports the failure and the store holds the new
  Interview row and none of its questions; the action has no cleanup.
\<close>

theorem orphan_interview_counterexample:
  "snd (createInterviewWithQuestions (test_env {InsertQuestions}) empty_db ex_form)
     = Inl storage_error
   \<and> map interview_id (interviews
        (fst (createInterviewWithQuestions (test_env {InsertQuestions}) empty_db ex_form))) = [''u'']
   \<and> questions (fst (createInterviewWithQuestions (test_env {InsertQuestions}) empty_db ex_form)) = []"
proof -
  have "InsertInterview \<notin> faults (test_env {InsertQuestions})"
    and "InsertQuestions \<in> faults (test_env {InsertQuestions})
       \<or> fd_jobRole ex_form \<in> set object_prototype_keys"
    and k: "fd_jobRole ex_form \<notin> set object_prototype_keys"
    by (simp_all add: test_env_def ex_form_def object_prototype_keys_def)
  from create_questions_fail [OF this(1,2), of empty_db] k
  show ?thesis
    by (simp add: new_interview_def empty_db_def test_env_def)
qed

text \<open>
  Claim C2, amended: interview creation is not atomic. When the insert of the Interview
  fails, the failure is returned and the store is unchanged. When the Interview is
  inserted and the questions cannot be generated (a job role naming a member of
  \<^verbatim>\<open>Object.prototype\<close>) or cannot be inserted, the failure is returned to the caller, and
  the Interview row stays in the store without any of its questions: no cleanup is
  performed. Otherwise the Interview is persisted together with its full question set
  (at least 5 questions).
\<close>

theorem creation_outcomes:
  "if InsertInterview \<in> faults e then
     createInterviewWithQuestions e d fd = (d, Inl storage_error)
   else if InsertQuestions \<in> faults e \<or> fd_jobRole fd \<in> set object_prototype_keys then
     (\<exists>err. createInterviewWithQuestions e d fd =
        (d\<lparr>interviews := interviews d @ [new_interview e d fd], next_id := Suc (next_id d)\<rparr>,
         Inl err))
   else
     (\<exists>qs. generateInterviewQuestions (random e) (fd_jobRole fd)
          (or_null (fd_industry fd)) (or_null (fd_difficulty fd)) 5 = Inr qs
        \<and> 5 \<le> length qs
        \<and> createInterviewWithQuestions e d fd =
           (d\<lparr>interviews := interviews d @ [new_interview e d fd],
              questions := questions d @
                questionsToInsert e (interview_id (new_interview e d fd)) (Suc (next_id d)) 0 qs,
              next_id := Suc (next_id d) + length qs\<rparr>,
            Inr (interview_id (new_interview e d fd))))"
proof (cases "InsertInterview \<in> faults e")
  case True
  then show ?thesis by (simp add: create_insert_fails)
next
  case inserted: False
  show ?thesis
  proof (cases "InsertQuestions \<in> faults e \<or> fd_jobRole fd \<in> set object_prototype_keys")
    case True
    then show ?thesis
      using inserted create_questions_fail [OF inserted True, of d] by auto
  next
    case False
    then have "InsertQuestions \<notin> faults e" "fd_jobRole fd \<notin> set object_prototype_keys"
      by simp_all
    from create_succeeds [OF inserted this, of d]
    show ?thesis
      using inserted False by simp
  qed
qed

theorem creation_outcomes_witness:
  "createInterviewWithQuestions (test_env {InsertInterview}) empty_db ex_form
     = (empty_db, Inl storage_error)"
  using creation_outcomes [of "test_env {InsertInterview}" empty_db ex_form]
  by (simp add: test_env_def)

text \<open>
  Claim C3, as stated: a resumed session starts at the first question without a
  persisted Response. It fails: with a Response stored for the first of two questions
  that question is the second (index 1), and the mounted session starts at index 0.
\<close>

theorem resume_cursor_counterexample:
  "spec_resume_cursor ex_questions [ex_response ''I have 5 years of experience''] = 1
   \<and> currentQuestionIndex (InterviewSession ex_props) = 0"
  by (simp add: spec_resume_cursor_def answered_def ex_questions_def ex_response_def
      InterviewSession_def)

text \<open>
  Claim C3, amended: when the session of an Interview is mounted, also after an
  interruption, the question cursor starts at 0 whatever Responses are persisted (the
  component does not receive them); for an interview with questions this is the first
  question without a persisted Response exactly when question 0 has none.
\<close>

theorem resume_starts_at_zero:
  assumes "p_questions p \<noteq> []"
  shows "currentQuestionIndex (InterviewSession p) = 0
     \<and> ((spec_resume_cursor (p_questions p) rs = currentQuestionIndex (InterviewSession p))
          = (\<not> answered rs (hd (p_questions p))))"
  using assms
  by (cases "p_questions p") (simp_all add: InterviewSession_def spec_resume_cursor_def)

theorem resume_starts_at_zero_witness:
  "p_questions ex_props \<noteq> []
   \<and> currentQuestionIndex (InterviewSession ex_props) = 0
   \<and> ((spec_resume_cursor (p_questions ex_props) [] = currentQuestionIndex (InterviewSession ex_props))
          = (\<not> answered [] (hd (p_questions ex_props))))"
proof -
  have h: "p_questions ex_props \<noteq> []"
    by (simp add: ex_props_def ex_questions_def)
  from resume_starts_at_zero [OF h, of "[]"] h show ?thesis by blast
qed

end
